theory Spec2Isabelle
  imports Main "HOL-Library.Sublist" "HOL-Library.Char_ord" "HOL-Library.List_Lexorder" "HOL-Library.AList"
begin

unbundle bit_operations_syntax

section \<open>Documents and exceptions\<close>

text \<open>
  Templates, lab records and manifests are the plain data that the YAML library loads and
  dumps: scalars, sequences and dicts. Dict keys are strings and keep their insertion
  order, so a dict is an association list (with distinct keys). Floating point scalars
  and timestamps are not part of the model.
\<close>

datatype yaml =
    YNull
  | YBool bool
  | YInt int
  | YStr string
  | YList "yaml list"
  | YDict "(string \<times> yaml) list"

type_synonym pydict = "(string \<times> yaml) list"

text \<open>
  The two \<^verbatim>\<open>raise NetworkError(...)\<close> sites of network.py, with the values their
  messages are formatted from.
\<close>

datatype NetworkError =
    NoSubnetAvailable
  | OffsetOutOfRange yaml yaml

text \<open>
  The \<^verbatim>\<open>raise StateError(...)\<close> sites of lab\_state.py: "No labs found", "No lab found
  matching <partial>", "Ambiguous lab ID <partial>. Matches: ..." and "Lab <id> not found".
\<close>

datatype StateError =
    NoLabsFound
  | NoLabMatching string
  | AmbiguousId string "string list"
  | LabNotFound string

text \<open>
  The \<^verbatim>\<open>raise ConfigError(...)\<close> sites of config.py, with the values their messages are
  formatted from: template not found, invalid config file, missing \<^verbatim>\<open>name\<close>, no services,
  and a service (given by its index, or by its name) missing \<^verbatim>\<open>name\<close>, \<^verbatim>\<open>image\<close> or
  \<^verbatim>\<open>ip_offset\<close>.
\<close>

datatype ConfigError =
    TemplateNotFound string
  | InvalidConfigFile string
  | MissingName
  | NoServices
  | ServiceMissingName nat
  | ServiceMissingImage yaml
  | ServiceMissingIpOffset yaml

text \<open>
  Every exception the modelled code can raise: the built-in ones by class (\<^verbatim>\<open>MarkupError\<close>
  is the console library's), the repository's own with their payload. \<^verbatim>\<open>DockerError\<close>
  carries its message.
\<close>

datatype exn =
    ValueError
  | TypeError
  | AttributeError
  | KeyError string
  | FileExistsError
  | NotADirectoryError
  | PermissionError
  | YAMLError
  | MarkupError
  | ConfigError ConfigError
  | NetworkError NetworkError
  | StateError StateError
  | DockerError string

section \<open>network.py\<close>

text \<open>
  An \<^verbatim>\<open>ipaddress.IPv4Network\<close> object: the integer of its network address and its prefix
  length. Two networks are equal when both agree, which is how the library compares and
  hashes them.
\<close>

record IPv4Network =
  network_address :: int
  prefixlen :: nat

definition BASE_NETWORK :: IPv4Network where
  "BASE_NETWORK = \<lparr>network_address = 172 * 2 ^ 24 + 30 * 2 ^ 16, prefixlen = 16\<rparr>"

definition SUBNET_PREFIX :: nat where
  "SUBNET_PREFIX = 24"

text \<open>
  \<^verbatim>\<open>net.subnets(new_prefix=p)\<close> for \<open>prefixlen net \<le> p \<le> 32\<close>, the only way the
  allocator calls it: the library steps from the network address to the broadcast address
  in strides of \<open>2 ^ (32 - p)\<close>.
\<close>

definition subnets :: "IPv4Network \<Rightarrow> nat \<Rightarrow> IPv4Network list" where
  "subnets net new_prefix =
     map (\<lambda>i. \<lparr>network_address = network_address net + int i * 2 ^ (32 - new_prefix),
               prefixlen = new_prefix\<rparr>)
       [0 ..< 2 ^ (new_prefix - prefixlen net)]"

definition netmask :: "IPv4Network \<Rightarrow> int" where
  "netmask net = 2 ^ 32 - 2 ^ (32 - prefixlen net)"

text \<open>\<^verbatim>\<open>ip in net\<close>: the library masks the address and compares with the network address.\<close>

definition contains :: "IPv4Network \<Rightarrow> int \<Rightarrow> bool" where
  "contains net ip = (ip AND netmask net = network_address net)"

text \<open>\<^verbatim>\<open>str(n)\<close> for a natural number, and the dotted forms of addresses and networks.\<close>

fun str_nat :: "nat \<Rightarrow> string" where
  "str_nat n =
     (if n < 10 then [''0123456789'' ! n]
      else str_nat (n div 10) @ [''0123456789'' ! (n mod 10)])"

definition str_IPv4Address :: "int \<Rightarrow> string" where
  "str_IPv4Address ip =
     str_nat (nat (ip div 2 ^ 24 mod 256)) @ ''.'' @ str_nat (nat (ip div 2 ^ 16 mod 256)) @ ''.'' @
     str_nat (nat (ip div 2 ^ 8 mod 256)) @ ''.'' @ str_nat (nat (ip mod 256))"

definition str_IPv4Network :: "IPv4Network \<Rightarrow> string" where
  "str_IPv4Network net = str_IPv4Address (network_address net) @ ''/'' @ str_nat (prefixlen net)"

text \<open>
  \<^verbatim>\<open>ipaddress.IPv4Network(s)\<close> belongs to the standard library, so the allocator is modelled
  over any constructor \<open>parse\<close>: \<open>parse s = None\<close> stands for the library raising
  \<^verbatim>\<open>ValueError\<close> (which \<^verbatim>\<open>AddressValueError\<close> and \<^verbatim>\<open>NetmaskValueError\<close> are), the only way
  it fails on loaded YAML data.

  \<^verbatim>\<open>NetworkAllocator.__init__\<close>: the set \<^verbatim>\<open>self.used\<close> after the loop.
\<close>

fun NetworkAllocator_init ::
  "(yaml \<Rightarrow> IPv4Network option) \<Rightarrow> yaml list option \<Rightarrow> IPv4Network set" where
  "NetworkAllocator_init parse None = {}"
| "NetworkAllocator_init parse (Some used_subnets) =
     fold (\<lambda>s used. case parse s of Some net \<Rightarrow> insert net used | None \<Rightarrow> used)
       used_subnets {}"

text \<open>
  \<^verbatim>\<open>NetworkAllocator.allocate\<close>: the loop over the candidate subnets, returning the string
  and the updated \<^verbatim>\<open>self.used\<close>, or the error raised after the loop.
\<close>

fun allocate_loop :: "IPv4Network list \<Rightarrow> IPv4Network set \<Rightarrow> exn + (string \<times> IPv4Network set)" where
  "allocate_loop [] used = Inl (NetworkError NoSubnetAvailable)"
| "allocate_loop (subnet # rest) used =
     (if network_address subnet = network_address BASE_NETWORK then allocate_loop rest used
      else if subnet \<notin> used then Inr (str_IPv4Network subnet, insert subnet used)
      else allocate_loop rest used)"

definition allocate :: "IPv4Network set \<Rightarrow> exn + (string \<times> IPv4Network set)" where
  "allocate used = allocate_loop (subnets BASE_NETWORK SUBNET_PREFIX) used"

text \<open>
  An offset read from a document: Python adds an \<^verbatim>\<open>int\<close> (a \<^verbatim>\<open>bool\<close> is one) to an address
  and raises \<^verbatim>\<open>TypeError\<close> for anything else.
\<close>

fun py_int :: "yaml \<Rightarrow> int option" where
  "py_int (YInt n) = Some n"
| "py_int (YBool b) = Some (if b then 1 else 0)"
| "py_int _ = None"

text \<open>
  \<^verbatim>\<open>address + offset\<close>: the library builds a new address from the sum and refuses an
  integer outside \<open>[0, 2 ^ 32)\<close> with \<^verbatim>\<open>AddressValueError\<close>.
\<close>

definition address_add :: "int \<Rightarrow> yaml \<Rightarrow> exn + int" where
  "address_add a offset =
     (case py_int offset of
        None \<Rightarrow> Inl TypeError
      | Some n \<Rightarrow> if a + n < 0 \<or> 2 ^ 32 \<le> a + n then Inl ValueError else Inr (a + n))"

definition compute_ip :: "(yaml \<Rightarrow> IPv4Network option) \<Rightarrow> yaml \<Rightarrow> yaml \<Rightarrow> exn + string" where
  "compute_ip parse subnet offset =
     (case parse subnet of
        None \<Rightarrow> Inl ValueError
      | Some net \<Rightarrow>
          (case address_add (network_address net) offset of
             Inl e \<Rightarrow> Inl e
           | Inr ip \<Rightarrow>
               if \<not> contains net ip then Inl (NetworkError (OffsetOutOfRange offset subnet))
               else Inr (str_IPv4Address ip)))"

definition gateway_ip :: "(yaml \<Rightarrow> IPv4Network option) \<Rightarrow> yaml \<Rightarrow> exn + string" where
  "gateway_ip parse subnet =
     (case parse subnet of
        None \<Rightarrow> Inl ValueError
      | Some net \<Rightarrow>
          (case address_add (network_address net) (YInt 1) of
             Inl e \<Rightarrow> Inl e
           | Inr ip \<Rightarrow> Inr (str_IPv4Address ip)))"

subsection \<open>The library's constructor on the usual notations\<close>

text \<open>
  An instance of the constructor, for running the allocator on concrete documents:
  \<^verbatim>\<open>IPv4Network(x)\<close> as the library reads an integer (a /32), a dotted quad (a /32), and a
  dotted quad followed by \<^verbatim>\<open>/\<close> and a prefix length, a netmask or a host mask. Octets are
  one to three decimal digits without a leading zero and at most 255; with host bits set
  the (strict) constructor raises.
\<close>

fun split_on :: "char \<Rightarrow> string \<Rightarrow> string list" where
  "split_on sep [] = [[]]"
| "split_on sep (c # cs) =
     (if c = sep then [] # split_on sep cs
      else (case split_on sep cs of [] \<Rightarrow> [[c]] | w # ws \<Rightarrow> (c # w) # ws))"

definition is_digit :: "char \<Rightarrow> bool" where
  "is_digit c = (48 \<le> (of_char c :: nat) \<and> (of_char c :: nat) \<le> 57)"

definition int_of_digits :: "string \<Rightarrow> nat" where
  "int_of_digits s = foldl (\<lambda>acc c. 10 * acc + (of_char c - 48)) 0 s"

definition parse_octet :: "string \<Rightarrow> nat option" where
  "parse_octet s =
     (if s = [] \<or> \<not> list_all is_digit s \<or> 3 < length s then None
      else if s \<noteq> ''0'' \<and> hd s = CHR ''0'' then None
      else if 255 < int_of_digits s then None
      else Some (int_of_digits s))"

definition ip_int_from_string :: "string \<Rightarrow> int option" where
  "ip_int_from_string s =
     (if s = [] then None
      else (case map parse_octet (split_on CHR ''.'' s) of
              [Some a, Some b, Some c, Some d] \<Rightarrow>
                Some (int a * 2 ^ 24 + int b * 2 ^ 16 + int c * 2 ^ 8 + int d)
            | _ \<Rightarrow> None))"

definition prefix_from_prefix_string :: "string \<Rightarrow> nat option" where
  "prefix_from_prefix_string s =
     (if s = [] \<or> \<not> list_all is_digit s then None
      else if 32 < int_of_digits s then None
      else Some (int_of_digits s))"

definition prefix_from_ip_int :: "int \<Rightarrow> nat option" where
  "prefix_from_ip_int m = find (\<lambda>p. m = 2 ^ 32 - 2 ^ (32 - p)) (rev [0 ..< 33])"

definition prefix_from_ip_string :: "string \<Rightarrow> nat option" where
  "prefix_from_ip_string s =
     (case ip_int_from_string s of
        None \<Rightarrow> None
      | Some m \<Rightarrow>
          (case prefix_from_ip_int m of
             Some p \<Rightarrow> Some p
           | None \<Rightarrow> prefix_from_ip_int (2 ^ 32 - 1 - m)))"

definition make_netmask :: "string \<Rightarrow> nat option" where
  "make_netmask s =
     (case prefix_from_prefix_string s of
        Some p \<Rightarrow> Some p
      | None \<Rightarrow> prefix_from_ip_string s)"

definition make_network :: "int \<Rightarrow> nat \<Rightarrow> IPv4Network option" where
  "make_network a p =
     (if a AND (2 ^ 32 - 2 ^ (32 - p)) \<noteq> a then None
      else Some \<lparr>network_address = a, prefixlen = p\<rparr>)"

fun IPv4Network_of :: "yaml \<Rightarrow> IPv4Network option" where
  "IPv4Network_of (YStr s) =
     (case split_on CHR ''/'' s of
        [a] \<Rightarrow> (case ip_int_from_string a of None \<Rightarrow> None | Some ip \<Rightarrow> make_network ip 32)
      | [a, m] \<Rightarrow>
          (case ip_int_from_string a of
             None \<Rightarrow> None
           | Some ip \<Rightarrow> (case make_netmask m of None \<Rightarrow> None | Some p \<Rightarrow> make_network ip p))
      | _ \<Rightarrow> None)"
| "IPv4Network_of (YInt n) =
     (if n < 0 \<or> 2 ^ 32 \<le> n then None else make_network n 32)"
| "IPv4Network_of (YBool b) = make_network (if b then 1 else 0) 32"
| "IPv4Network_of _ = None"

section \<open>Python's operations on loaded documents\<close>

text \<open>Sequencing of steps that may raise: the first exception ends the computation.\<close>

definition bnd :: "exn + 'a \<Rightarrow> ('a \<Rightarrow> exn + 'b) \<Rightarrow> exn + 'b" where
  "bnd m f = (case m of Inl e \<Rightarrow> Inl e | Inr x \<Rightarrow> f x)"

text \<open>Truth value of a document, as \<^verbatim>\<open>if x\<close> and \<^verbatim>\<open>not x\<close> see it.\<close>

fun py_truthy :: "yaml \<Rightarrow> bool" where
  "py_truthy YNull = False"
| "py_truthy (YBool b) = b"
| "py_truthy (YInt n) = (n \<noteq> 0)"
| "py_truthy (YStr s) = (s \<noteq> [])"
| "py_truthy (YList xs) = (xs \<noteq> [])"
| "py_truthy (YDict d) = (d \<noteq> [])"

text \<open>
  \<^verbatim>\<open>for x in v\<close>: a list gives its items, a dict its keys, a string its characters;
  the other scalars are not iterable.
\<close>

fun py_iter :: "yaml \<Rightarrow> exn + yaml list" where
  "py_iter (YList xs) = Inr xs"
| "py_iter (YDict d) = Inr (map (\<lambda>kv. YStr (fst kv)) d)"
| "py_iter (YStr s) = Inr (map (\<lambda>c. YStr [c]) s)"
| "py_iter _ = Inl TypeError"

text \<open>
  \<^verbatim>\<open>k in v\<close> for a string \<open>k\<close>: a key of a dict, a substring of a string, an item of a
  list; \<^verbatim>\<open>TypeError\<close> on the other scalars.
\<close>

fun py_in :: "string \<Rightarrow> yaml \<Rightarrow> exn + bool" where
  "py_in k (YDict d) = Inr (map_of d k \<noteq> None)"
| "py_in k (YStr s) = Inr (sublist k s)"
| "py_in k (YList xs) = Inr (YStr k \<in> set xs)"
| "py_in k _ = Inl TypeError"

text \<open>\<^verbatim>\<open>v[k]\<close> for a string \<open>k\<close>: only a dict can be subscripted by a string.\<close>

fun py_getitem :: "yaml \<Rightarrow> string \<Rightarrow> exn + yaml" where
  "py_getitem (YDict d) k = (case map_of d k of None \<Rightarrow> Inl (KeyError k) | Some v \<Rightarrow> Inr v)"
| "py_getitem _ k = Inl TypeError"

text \<open>\<^verbatim>\<open>v.get(k, dflt)\<close>: only dicts have the method.\<close>

fun py_get :: "yaml \<Rightarrow> string \<Rightarrow> yaml \<Rightarrow> exn + yaml" where
  "py_get (YDict d) k dflt = Inr (case map_of d k of None \<Rightarrow> dflt | Some v \<Rightarrow> v)"
| "py_get _ k dflt = Inl AttributeError"

text \<open>The same on a value already known to be a dict.\<close>

definition dict_getitem :: "pydict \<Rightarrow> string \<Rightarrow> exn + yaml" where
  "dict_getitem d k = (case map_of d k of None \<Rightarrow> Inl (KeyError k) | Some v \<Rightarrow> Inr v)"

definition dict_get :: "pydict \<Rightarrow> string \<Rightarrow> yaml \<Rightarrow> yaml" where
  "dict_get d k dflt = (case map_of d k of None \<Rightarrow> dflt | Some v \<Rightarrow> v)"

text \<open>
  \<^verbatim>\<open>str(v)\<close>, which is also how an f-string formats \<open>v\<close>. The text of a scalar is fixed
  here; for a list or a dict it is its \<^verbatim>\<open>repr\<close>, left to the parameter \<open>repr\<close>.
\<close>

fun py_str :: "(yaml \<Rightarrow> string) \<Rightarrow> yaml \<Rightarrow> string" where
  "py_str repr (YStr s) = s"
| "py_str repr (YInt i) = (if i < 0 then ''-'' @ str_nat (nat (- i)) else str_nat (nat i))"
| "py_str repr (YBool b) = (if b then ''True'' else ''False'')"
| "py_str repr YNull = ''None''"
| "py_str repr v = repr v"

fun join :: "string \<Rightarrow> string list \<Rightarrow> string" where
  "join sep [] = []"
| "join sep [x] = x"
| "join sep (x # y # ys) = x @ sep @ join sep (y # ys)"

fun the_str :: "yaml \<Rightarrow> exn + string" where
  "the_str (YStr s) = Inr s"
| "the_str _ = Inl TypeError"

fun sequence :: "(exn + 'a) list \<Rightarrow> exn + 'a list" where
  "sequence [] = Inr []"
| "sequence (m # ms) = bnd m (\<lambda>x. bnd (sequence ms) (\<lambda>xs. Inr (x # xs)))"

text \<open>\<^verbatim>\<open>sep.join(v)\<close>: \<open>v\<close> must be iterable and every item a string.\<close>

definition py_join :: "string \<Rightarrow> yaml \<Rightarrow> exn + string" where
  "py_join sep v =
     bnd (py_iter v) (\<lambda>items. bnd (sequence (map the_str items)) (\<lambda>strs. Inr (join sep strs)))"

section \<open>config.py\<close>

text \<open>
  \<^verbatim>\<open>validate_config\<close>. The loop body for the service at index \<open>i\<close>; the message of a
  missing image formats \<^verbatim>\<open>svc.get('name', i)\<close> and that of a missing offset \<^verbatim>\<open>svc['name']\<close>.
\<close>

definition validate_service :: "nat \<Rightarrow> yaml \<Rightarrow> exn + unit" where
  "validate_service i svc =
     bnd (py_in ''name'' svc) (\<lambda>has_name.
       if \<not> has_name then Inl (ConfigError (ServiceMissingName i))
       else bnd (py_in ''image'' svc) (\<lambda>has_image.
         if \<not> has_image then
           bnd (py_get svc ''name'' (YInt (int i))) (\<lambda>n. Inl (ConfigError (ServiceMissingImage n)))
         else bnd (py_in ''ip_offset'' svc) (\<lambda>has_offset.
           if \<not> has_offset then
             bnd (py_getitem svc ''name'') (\<lambda>n. Inl (ConfigError (ServiceMissingIpOffset n)))
           else Inr ())))"

fun validate_services :: "nat \<Rightarrow> yaml list \<Rightarrow> exn + unit" where
  "validate_services i [] = Inr ()"
| "validate_services i (svc # rest) =
     bnd (validate_service i svc) (\<lambda>_. validate_services (Suc i) rest)"

definition validate_config :: "pydict \<Rightarrow> exn + unit" where
  "validate_config config =
     (if map_of config ''name'' = None then Inl (ConfigError MissingName)
      else (case map_of config ''services'' of
              None \<Rightarrow> Inl (ConfigError NoServices)
            | Some services \<Rightarrow>
                if \<not> py_truthy services then Inl (ConfigError NoServices)
                else bnd (py_iter services) (validate_services 0)))"

text \<open>
  \<^verbatim>\<open>interpolate_variables\<close>. The pattern \<^verbatim>\<open>\$\{(\w+)\}\<close> matches at the head of a string
  when it starts with \<^verbatim>\<open>${\<close>, a non-empty run of word characters and \<^verbatim>\<open>}\<close>; the run is
  the key. Word characters are the ASCII letters, digits and the underscore (strings are
  taken as ASCII text: the letters beyond ASCII that \<^verbatim>\<open>\w\<close> also accepts are not modelled).
\<close>

definition is_word_char :: "char \<Rightarrow> bool" where
  "is_word_char c =
     (let n = (of_char c :: nat)
      in (48 \<le> n \<and> n \<le> 57) \<or> (65 \<le> n \<and> n \<le> 90) \<or> (97 \<le> n \<and> n \<le> 122) \<or> n = 95)"

fun match_placeholder :: "string \<Rightarrow> (string \<times> string) option" where
  "match_placeholder (a # b # t) =
     (if a = CHR ''$'' \<and> b = CHR ''{'' then
        (case dropWhile is_word_char t of
           c # rest \<Rightarrow>
             if c = CHR ''}'' \<and> takeWhile is_word_char t \<noteq> [] then Some (takeWhile is_word_char t, rest)
             else None
         | [] \<Rightarrow> None)
      else None)"
| "match_placeholder _ = None"

lemma match_placeholder_shorter:
  "match_placeholder s = Some (key, rest) \<Longrightarrow> length rest < length s"
proof (cases s rule: match_placeholder.cases)
  case (1 a b t)
  assume "match_placeholder s = Some (key, rest)"
  with 1 obtain c where "dropWhile is_word_char t = c # rest"
    by (auto split: if_splits list.splits)
  then have "length rest < length (dropWhile is_word_char t)" by simp
  also have "\<dots> \<le> length t" by (rule length_dropWhile_le)
  finally show ?thesis using 1 by simp
qed auto

text \<open>
  \<^verbatim>\<open>re.sub(pattern, _sub, s)\<close>: scan from the left; a match is replaced by what \<open>f\<close> gives
  for its key and the scan goes on behind it, any other character is copied.
\<close>

function re_sub :: "(string \<Rightarrow> string) \<Rightarrow> string \<Rightarrow> string" where
  "re_sub f [] = []"
| "re_sub f (c # cs) =
     (case match_placeholder (c # cs) of
        Some (key, rest) \<Rightarrow> f key @ re_sub f rest
      | None \<Rightarrow> c # re_sub f cs)"
  by pat_completeness auto
termination
  by (relation "measure (\<lambda>(f, s). length s)") (auto dest: match_placeholder_shorter)

text \<open>
  The inner \<^verbatim>\<open>_sub\<close>: the settings first, then the environment, else the match itself.
\<close>

definition sub :: "(yaml \<Rightarrow> string) \<Rightarrow> pydict \<Rightarrow> (string \<Rightarrow> string option) \<Rightarrow> string \<Rightarrow> string" where
  "sub repr lookup environ key =
     (case map_of lookup key of
        Some v \<Rightarrow> py_str repr v
      | None \<Rightarrow> (case environ key of Some env_val \<Rightarrow> env_val | None \<Rightarrow> ''${'' @ key @ ''}''))"

text \<open>The inner \<^verbatim>\<open>_replace\<close>, over the substitution \<open>f\<close> of a key.\<close>

fun replace :: "(string \<Rightarrow> string) \<Rightarrow> yaml \<Rightarrow> yaml" where
  "replace f (YStr s) = YStr (re_sub f s)"
| "replace f (YDict d) = YDict (map (\<lambda>kv. (fst kv, replace f (snd kv))) d)"
| "replace f (YList xs) = YList (map (replace f) xs)"
| "replace f obj = obj"

text \<open>
  \<^verbatim>\<open>{**settings}\<close> needs a mapping; the result of \<^verbatim>\<open>_replace(config)\<close> is the dict of the
  replaced values.
\<close>

definition interpolate_variables ::
  "(yaml \<Rightarrow> string) \<Rightarrow> (string \<Rightarrow> string option) \<Rightarrow> pydict \<Rightarrow> exn + pydict" where
  "interpolate_variables repr environ config =
     (case dict_get config ''settings'' (YDict []) of
        YDict lookup \<Rightarrow>
          Inr (map (\<lambda>kv. (fst kv, replace (sub repr lookup environ) (snd kv))) config)
      | _ \<Rightarrow> Inl TypeError)"

section \<open>compose.py\<close>

text \<open>
  A dict under construction is an association list: \<^verbatim>\<open>d[k] = v\<close> is \<open>AList.update k v d\<close>
  (an existing key keeps its place, a new one goes last) and \<^verbatim>\<open>d.pop(k, None)\<close> is
  \<open>AList.delete k d\<close>.

  The \<^verbatim>\<open>if "resources" in svc\<close> block of \<^verbatim>\<open>_build_service\<close>: the \<^verbatim>\<open>deploy\<close> entry, if any.
\<close>

definition build_deploy :: "(yaml \<Rightarrow> string) \<Rightarrow> pydict \<Rightarrow> exn + yaml option" where
  "build_deploy repr svc =
     (case map_of svc ''resources'' of
        None \<Rightarrow> Inr None
      | Some res \<Rightarrow>
          bnd (py_in ''memory'' res) (\<lambda>has_memory.
          bnd (if has_memory
               then bnd (py_getitem res ''memory'') (\<lambda>m. Inr (AList.update ''memory'' m []))
               else Inr []) (\<lambda>limits.
          bnd (py_in ''cpus'' res) (\<lambda>has_cpus.
          bnd (if has_cpus
               then bnd (py_getitem res ''cpus'') (\<lambda>c.
                      Inr (AList.update ''cpus'' (YStr (py_str repr c)) limits))
               else Inr limits) (\<lambda>limits.
          Inr (Some (YDict [(''resources'', YDict [(''limits'', YDict limits)])])))))))"

text \<open>\<^verbatim>\<open>if k in svc: service[k] = svc[k]\<close>\<close>

definition copy_key :: "pydict \<Rightarrow> string \<Rightarrow> pydict \<Rightarrow> pydict" where
  "copy_key svc k service =
     (case map_of svc k of None \<Rightarrow> service | Some v \<Rightarrow> AList.update k v service)"

definition is_windows_docker :: "pydict \<Rightarrow> bool" where
  "is_windows_docker svc = (map_of svc ''platform'' = Some (YStr ''windows-docker''))"

text \<open>
  \<^verbatim>\<open>ComposeGenerator._build_service\<close>. A service that is not a dict fails at the first
  subscript. The steps that can raise come first, in their order in the source (the steps
  between them raise nothing); the dict is then built by the source's assignments in
  their order.
\<close>

fun build_service ::
  "(yaml \<Rightarrow> IPv4Network option) \<Rightarrow> (yaml \<Rightarrow> string) \<Rightarrow> yaml \<Rightarrow> yaml \<Rightarrow> string \<Rightarrow> exn + pydict" where
  "build_service parse repr (YDict svc) subnet network_name =
     bnd (dict_getitem svc ''image'') (\<lambda>image.
     bnd (dict_getitem svc ''name'') (\<lambda>name.
     bnd (dict_getitem svc ''ip_offset'') (\<lambda>ip_offset.
     bnd (compute_ip parse subnet ip_offset) (\<lambda>ip.
     bnd (build_deploy repr svc) (\<lambda>deploy.
       let service = AList.update ''image'' image [];
           service = AList.update ''container_name'' name service;
           service = copy_key svc ''hostname'' service;
           service = AList.update ''networks''
                       (YDict [(network_name, YDict [(''ipv4_address'', YStr ip)])]) service;
           service = (if is_windows_docker svc then
                        AList.update ''stop_grace_period'' (YStr ''120s'')
                          (AList.update ''cap_add'' (YList [YStr ''NET_ADMIN''])
                            (AList.update ''devices'' (YList [YStr ''/dev/kvm'']) service))
                      else service);
           service = (case deploy of None \<Rightarrow> service | Some d \<Rightarrow> AList.update ''deploy'' d service);
           service = copy_key svc ''ports'' service;
           service = copy_key svc ''environment'' service;
           service = copy_key svc ''volumes'' service;
           service = copy_key svc ''healthcheck'' service;
           service = copy_key svc ''depends_on'' service;
           service = copy_key svc ''command'' service;
           service = copy_key svc ''restart'' service;
           service = copy_key svc ''privileged'' service;
           service = (if map_of svc ''cap_add'' \<noteq> None \<and> \<not> is_windows_docker svc
                      then copy_key svc ''cap_add'' service else service);
           service = (if map_of svc ''network_mode'' \<noteq> None
                      then AList.delete ''networks'' (copy_key svc ''network_mode'' service)
                      else service)
       in Inr service)))))"
| "build_service parse repr _ subnet network_name = Inl TypeError"

text \<open>
  The manifest. Its top-level keys are fixed (\<^verbatim>\<open>version\<close>, \<^verbatim>\<open>services\<close>, \<^verbatim>\<open>networks\<close> and, when
  the template declares any, \<^verbatim>\<open>volumes\<close>, in this order), so it is a record of their values.
  Its \<^verbatim>\<open>services\<close> dict is keyed by the service names, and a name may be any hashable
  document: a dict with such keys is an association list under Python's equality of keys,
  by which strings are equal to equal strings, \<^verbatim>\<open>None\<close> to \<^verbatim>\<open>None\<close>, and integers and
  booleans to each other by their value (\<^verbatim>\<open>True == 1\<close>); lists and dicts are unhashable,
  and are equal to no key.
\<close>

fun py_key_eq :: "yaml \<Rightarrow> yaml \<Rightarrow> bool" where
  "py_key_eq (YStr a) (YStr b) = (a = b)"
| "py_key_eq YNull YNull = True"
| "py_key_eq a b = (py_int a \<noteq> None \<and> py_int a = py_int b)"

definition py_hashable :: "yaml \<Rightarrow> bool" where
  "py_hashable k = py_key_eq k k"

text \<open>
  \<^verbatim>\<open>d[k] = v\<close> and \<^verbatim>\<open>d.get(k)\<close> on such a dict: an assignment to a key that is present
  replaces the value and keeps the key, a new key goes last.
\<close>

fun setitem :: "(yaml \<times> 'v) list \<Rightarrow> yaml \<Rightarrow> 'v \<Rightarrow> (yaml \<times> 'v) list" where
  "setitem [] k v = [(k, v)]"
| "setitem ((k', v') # d) k v =
     (if py_key_eq k' k then (k', v) # d else (k', v') # setitem d k v)"

fun getitem :: "(yaml \<times> 'v) list \<Rightarrow> yaml \<Rightarrow> 'v option" where
  "getitem [] k = None"
| "getitem ((k', v') # d) k = (if py_key_eq k' k then Some v' else getitem d k)"

record compose =
  compose_version :: yaml
  compose_services :: "(yaml \<times> pydict) list"
  compose_networks :: yaml
  compose_volumes :: "yaml option"

text \<open>
  The loop of \<^verbatim>\<open>generate\<close> filling \<^verbatim>\<open>compose["services"]\<close>: the definition of a service is
  stored under its name, and Python refuses an unhashable name with \<^verbatim>\<open>TypeError\<close>.
\<close>

fun generate_loop ::
  "(yaml \<Rightarrow> IPv4Network option) \<Rightarrow> (yaml \<Rightarrow> string) \<Rightarrow> yaml list \<Rightarrow> yaml \<Rightarrow> string \<Rightarrow>
   (yaml \<times> pydict) list \<Rightarrow> exn + (yaml \<times> pydict) list" where
  "generate_loop parse repr [] subnet network_name services = Inr services"
| "generate_loop parse repr (svc # rest) subnet network_name services =
     bnd (build_service parse repr svc subnet network_name) (\<lambda>service_def.
     bnd (py_getitem svc ''name'') (\<lambda>name.
       if \<not> py_hashable name then Inl TypeError
       else generate_loop parse repr rest subnet network_name (setitem services name service_def)))"

definition generate ::
  "(yaml \<Rightarrow> IPv4Network option) \<Rightarrow> (yaml \<Rightarrow> string) \<Rightarrow> pydict \<Rightarrow> yaml \<Rightarrow> string \<Rightarrow> exn + compose" where
  "generate parse repr config subnet lab_id =
     (let network_name = ''labforge-'' @ lab_id in
      bnd (gateway_ip parse subnet) (\<lambda>gateway.
        let networks =
              YDict [(network_name, YDict
                [(''driver'', YStr ''bridge''),
                 (''ipam'', YDict [(''config'', YList
                    [YDict [(''subnet'', subnet), (''gateway'', YStr gateway)]])])])];
            volumes_config = dict_get config ''volumes'' (YDict []);
            volumes = (if py_truthy volumes_config then Some volumes_config else None)
        in bnd (dict_getitem config ''services'') (\<lambda>services.
           bnd (py_iter services) (\<lambda>items.
           bnd (generate_loop parse repr items subnet network_name []) (\<lambda>defs.
           Inr \<lparr>compose_version = YStr ''3.8'', compose_services = defs,
                compose_networks = networks, compose_volumes = volumes\<rparr>)))))"

section \<open>lab\_state.py\<close>

text \<open>
  The data directory. An entry of \<^verbatim>\<open>DATA_DIR\<close> is a regular file or a directory; of a lab
  directory the model keeps the two files the code reads and writes. What
  \<^verbatim>\<open>yaml.safe_load\<close> makes of \<^verbatim>\<open>state.yml\<close> is a document, or the file is unreadable and the
  loader raises; \<^verbatim>\<open>yaml.dump\<close> followed by \<^verbatim>\<open>yaml.safe_load\<close> gives the document back, so a
  written file holds the document itself. Lab ids are single path components.
\<close>

datatype content = Unreadable | Document yaml

record lab_dir =
  state_file :: "content option"
  compose_file :: "compose option"

datatype entry = RegularFile | Directory lab_dir

text \<open>Console messages, one constructor per \<^verbatim>\<open>console.print\<close> site, with the values shown.\<close>

datatype message =
    ResolvingTemplate string
  | PrintLabId string
  | PrintNetwork string
  | PrintComposeFile string
  | StartingLab
  | LabIsRunning
  | BuildFailed exn
  | AccessInfo string "(yaml \<times> string \<times> string \<times> string) list"
  | RunningPostStart yaml yaml
  | PostStartFailed yaml exn
  | AlreadyDestroyed string
  | DestroyingLab string
  | DockerWarning exn
  | LabDestroyed string

text \<open>
  What the code acts on: the data directory (\<open>None\<close> while it does not exist, else its
  entries by name), the console, and the number of clock readings taken so far.
\<close>

record world =
  data_dir :: "(string \<times> entry) list option"
  console :: "message list"
  ticks :: nat

text \<open>
  What the code calls but does not contain: the library's network constructor and
  \<^verbatim>\<open>repr\<close>, the process environment, the clock (the text of the n-th reading of
  \<^verbatim>\<open>datetime.now\<close>), the templates on disk (\<^verbatim>\<open>resolve_template\<close> then \<^verbatim>\<open>load_config\<close> read
  them), the hash suffix of \<^verbatim>\<open>generate_lab_id\<close>, \<^verbatim>\<open>docker compose\<close> (for a project and its
  arguments, the exception the \<^verbatim>\<open>DockerManager\<close> call ends with, if any), and the console
  library: whether it renders the text of a message, which it refuses with \<^verbatim>\<open>MarkupError\<close>
  when the text, made of template data, holds a closing tag that closes nothing.
\<close>

record host =
  IPv4Network :: "yaml \<Rightarrow> IPv4Network option"
  py_repr :: "yaml \<Rightarrow> string"
  environ :: "string \<Rightarrow> string option"
  clock :: "nat \<Rightarrow> string"
  load_template :: "string \<Rightarrow> exn + pydict"
  hash_suffix :: "yaml \<Rightarrow> string"
  docker :: "string \<Rightarrow> yaml list \<Rightarrow> exn option"
  renders :: "message \<Rightarrow> bool"

definition now :: "host \<Rightarrow> world \<Rightarrow> string \<times> world" where
  "now h w = (clock h (ticks w), w\<lparr>ticks := Suc (ticks w)\<rparr>)"

definition print :: "message \<Rightarrow> world \<Rightarrow> world" where
  "print m w = w\<lparr>console := console w @ [m]\<rparr>"

text \<open>\<^verbatim>\<open>console.print\<close> in \<^verbatim>\<open>build\<close>: the message is shown, or the console library raises.\<close>

definition console_print :: "host \<Rightarrow> message \<Rightarrow> world \<Rightarrow> (exn + unit) \<times> world" where
  "console_print h m w = (if renders h m then (Inr (), print m w) else (Inl MarkupError, w))"

text \<open>\<^verbatim>\<open>generate_lab_id\<close>: the first three items of the name, a dash and the hash suffix.\<close>

fun generate_lab_id :: "host \<Rightarrow> yaml \<Rightarrow> exn + string" where
  "generate_lab_id h (YStr s) = Inr (take 3 s @ ''-'' @ hash_suffix h (YStr s))"
| "generate_lab_id h (YList xs) =
     Inr (py_str (py_repr h) (YList (take 3 xs)) @ ''-'' @ hash_suffix h (YList xs))"
| "generate_lab_id h _ = Inl TypeError"

definition lookup_dir :: "string \<Rightarrow> world \<Rightarrow> entry option" where
  "lookup_dir lab_id w = (case data_dir w of None \<Rightarrow> None | Some es \<Rightarrow> map_of es lab_id)"

text \<open>\<^verbatim>\<open>self.lab_dir.mkdir(parents=True, exist_ok=True)\<close>\<close>

definition mkdir :: "string \<Rightarrow> world \<Rightarrow> exn + world" where
  "mkdir lab_id w =
     (case lookup_dir lab_id w of
        Some RegularFile \<Rightarrow> Inl FileExistsError
      | Some (Directory d) \<Rightarrow> Inr w
      | None \<Rightarrow>
          Inr (w\<lparr>data_dir :=
                 Some (AList.update lab_id (Directory \<lparr>state_file = None, compose_file = None\<rparr>)
                        (case data_dir w of None \<Rightarrow> [] | Some es \<Rightarrow> es))\<rparr>))"

text \<open>\<^verbatim>\<open>LabState._write\<close>, in a lab directory that exists.\<close>

definition write_state :: "string \<Rightarrow> pydict \<Rightarrow> world \<Rightarrow> world" where
  "write_state lab_id state w =
     (case (data_dir w, lookup_dir lab_id w) of
        (Some es, Some (Directory d)) \<Rightarrow>
          w\<lparr>data_dir := Some (AList.update lab_id (Directory (d\<lparr>state_file := Some (Document (YDict state))\<rparr>)) es)\<rparr>
      | _ \<Rightarrow> w)"

text \<open>The dict \<^verbatim>\<open>svc_info\<close> that \<^verbatim>\<open>create\<close> keeps of one service.\<close>

definition svc_info :: "yaml \<Rightarrow> exn + yaml" where
  "svc_info svc =
     bnd (py_getitem svc ''name'') (\<lambda>name.
     bnd (py_getitem svc ''image'') (\<lambda>image.
     bnd (py_getitem svc ''ip_offset'') (\<lambda>ip_offset.
     bnd (py_get svc ''platform'' (YStr ''linux'')) (\<lambda>platform.
     bnd (py_in ''access'' svc) (\<lambda>has_access.
     bnd (if has_access then py_getitem svc ''access'' else Inr YNull) (\<lambda>access.
     bnd (py_in ''ports'' svc) (\<lambda>has_ports.
     bnd (if has_ports then py_getitem svc ''ports'' else Inr YNull) (\<lambda>ports.
       let info = [(''name'', name), (''image'', image), (''ip_offset'', ip_offset),
                   (''platform'', platform)];
           info = (if has_access then AList.update ''access'' access info else info);
           info = (if has_ports then AList.update ''ports'' ports info else info)
       in Inr (YDict info)))))))))"

text \<open>\<^verbatim>\<open>LabState.create\<close>: the result and the world it leaves, also when it raises.\<close>

definition create ::
  "host \<Rightarrow> string \<Rightarrow> string \<Rightarrow> pydict \<Rightarrow> yaml \<Rightarrow> world \<Rightarrow> (exn + pydict) \<times> world" where
  "create h lab_id template config subnet w =
     (case mkdir lab_id w of
        Inl e \<Rightarrow> (Inl e, w)
      | Inr w1 \<Rightarrow>
          (case bnd (py_iter (dict_get config ''services'' (YList []))) (\<lambda>items.
                  sequence (map svc_info items)) of
             Inl e \<Rightarrow> (Inl e, w1)
           | Inr services \<Rightarrow>
               (let (created_at, w2) = now h w1;
                    (updated_at, w3) = now h w2;
                    state =
                      [(''lab_id'', YStr lab_id),
                       (''template'', YStr template),
                       (''name'', dict_get config ''name'' (YStr template)),
                       (''description'', dict_get config ''description'' (YStr '''')),
                       (''status'', YStr ''building''),
                       (''subnet'', subnet),
                       (''services'', YList services),
                       (''created_at'', YStr created_at),
                       (''updated_at'', YStr updated_at)]
                in (Inr state, write_state lab_id state w3))))"

text \<open>\<^verbatim>\<open>LabState.load\<close>\<close>

definition load :: "string \<Rightarrow> world \<Rightarrow> exn + yaml" where
  "load lab_id w =
     (case lookup_dir lab_id w of
        Some (Directory d) \<Rightarrow>
          (case state_file d of
             None \<Rightarrow> Inl (StateError (LabNotFound lab_id))
           | Some Unreadable \<Rightarrow> Inl YAMLError
           | Some (Document v) \<Rightarrow> Inr v)
      | _ \<Rightarrow> Inl (StateError (LabNotFound lab_id)))"

text \<open>
  \<^verbatim>\<open>LabState.update_status\<close>: item assignment needs the loaded document to be a dict.
\<close>

definition update_status :: "host \<Rightarrow> string \<Rightarrow> string \<Rightarrow> world \<Rightarrow> (exn + unit) \<times> world" where
  "update_status h lab_id status w =
     (case load lab_id w of
        Inl e \<Rightarrow> (Inl e, w)
      | Inr (YDict state) \<Rightarrow>
          (let (t, w1) = now h w;
               state = AList.update ''status'' (YStr status) state;
               state = AList.update ''updated_at'' (YStr t) state
           in (Inr (), write_state lab_id state w1))
      | Inr _ \<Rightarrow> (Inl TypeError, w))"

text \<open>\<^verbatim>\<open>LabState.delete\<close>: \<^verbatim>\<open>shutil.rmtree\<close> refuses a path that is not a directory.\<close>

definition delete :: "string \<Rightarrow> world \<Rightarrow> (exn + unit) \<times> world" where
  "delete lab_id w =
     (case (data_dir w, lookup_dir lab_id w) of
        (Some es, Some (Directory d)) \<Rightarrow> (Inr (), w\<lparr>data_dir := Some (AList.delete lab_id es)\<rparr>)
      | (Some es, Some RegularFile) \<Rightarrow> (Inl NotADirectoryError, w)
      | _ \<Rightarrow> (Inr (), w))"

text \<open>\<^verbatim>\<open>LabState.list_all\<close>: the records of the lab directories, in the order of their names.\<close>

fun readable_state :: "string \<times> entry \<Rightarrow> yaml option" where
  "readable_state (name, Directory d) =
     (case state_file d of
        Some (Document (YDict state)) \<Rightarrow> if state \<noteq> [] then Some (YDict state) else None
      | _ \<Rightarrow> None)"
| "readable_state (name, RegularFile) = None"

definition list_all_labs :: "world \<Rightarrow> yaml list" where
  "list_all_labs w =
     (case data_dir w of
        None \<Rightarrow> []
      | Some es \<Rightarrow> List.map_filter readable_state (sort_key fst es))"

text \<open>\<^verbatim>\<open>LabState.resolve_id\<close>\<close>

fun is_match :: "string \<Rightarrow> string \<times> entry \<Rightarrow> bool" where
  "is_match partial_id (name, Directory d) = (prefix partial_id name \<and> state_file d \<noteq> None)"
| "is_match partial_id (name, RegularFile) = False"

definition resolve_id :: "string \<Rightarrow> world \<Rightarrow> exn + string" where
  "resolve_id partial_id w =
     (case data_dir w of
        None \<Rightarrow> Inl (StateError NoLabsFound)
      | Some es \<Rightarrow>
          (let matches = map fst (filter (is_match partial_id) es) in
           if length matches = 0 then Inl (StateError (NoLabMatching partial_id))
           else if length matches > 1 then Inl (StateError (AmbiguousId partial_id matches))
           else Inr (matches ! 0)))"

text \<open>\<^verbatim>\<open>LabState.used_subnets\<close>; every item of \<open>list_all_labs\<close> is a dict.\<close>

fun used_subnet :: "yaml \<Rightarrow> yaml option" where
  "used_subnet (YDict state) =
     (if map_of state ''status'' \<noteq> Some (YStr ''destroyed'') then map_of state ''subnet'' else None)"
| "used_subnet _ = None"

definition used_subnets :: "world \<Rightarrow> yaml list" where
  "used_subnets w = List.map_filter used_subnet (list_all_labs w)"

section \<open>controller.py\<close>

text \<open>Sequencing of steps that act on the world; an exception keeps the world reached.\<close>

definition wbnd ::
  "(exn + 'a) \<times> world \<Rightarrow> ('a \<Rightarrow> world \<Rightarrow> (exn + 'b) \<times> world) \<Rightarrow> (exn + 'b) \<times> world" where
  "wbnd m f = (case m of (Inl e, w) \<Rightarrow> (Inl e, w) | (Inr x, w) \<Rightarrow> f x w)"

text \<open>
  \<^verbatim>\<open>ComposeGenerator.write\<close> into the lab directory; the result is the path of the file.
\<close>

definition write_compose :: "compose \<Rightarrow> string \<Rightarrow> world \<Rightarrow> (exn + string) \<times> world" where
  "write_compose compose lab_id w =
     (case mkdir lab_id w of
        Inl e \<Rightarrow> (Inl e, w)
      | Inr w1 \<Rightarrow>
          (case (data_dir w1, lookup_dir lab_id w1) of
             (Some es, Some (Directory d)) \<Rightarrow>
               (Inr (lab_id @ ''/docker-compose.yml''),
                w1\<lparr>data_dir := Some (AList.update lab_id
                        (Directory (d\<lparr>compose_file := Some compose\<rparr>)) es)\<rparr>)
           | _ \<Rightarrow> (Inr (lab_id @ ''/docker-compose.yml''), w1)))"

text \<open>The \<^verbatim>\<open>DockerManager\<close> calls of the controller, by their arguments.\<close>

definition docker_up :: "host \<Rightarrow> string \<Rightarrow> exn option" where
  "docker_up h project = docker h project [YStr ''up'', YStr ''-d'', YStr ''--pull=always'']"

definition docker_down :: "host \<Rightarrow> string \<Rightarrow> bool \<Rightarrow> exn option" where
  "docker_down h project volumes =
     docker h project (YStr ''down'' # (if volumes then [YStr ''-v''] else []))"

definition docker_exec :: "host \<Rightarrow> string \<Rightarrow> yaml \<Rightarrow> yaml list \<Rightarrow> exn option" where
  "docker_exec h project service command =
     docker h project ([YStr ''exec'', YStr ''-it'', service] @ command)"

text \<open>\<^verbatim>\<open>LabController._print_access_info\<close>: one line per access entry, one row per service.\<close>

definition access_line :: "(yaml \<Rightarrow> string) \<Rightarrow> yaml \<Rightarrow> exn + string" where
  "access_line repr acc =
     bnd (py_get acc ''label'' (YStr [])) (\<lambda>label.
     bnd (py_get acc ''url'' (YStr [])) (\<lambda>url.
     bnd (py_get acc ''credentials'' (YDict [])) (\<lambda>creds.
       if py_truthy creds then
         bnd (py_get creds ''username'' (YStr [])) (\<lambda>username.
         bnd (py_get creds ''password'' (YStr [])) (\<lambda>password.
           Inr (py_str repr label @ '': '' @ py_str repr url @
                '' ('' @ py_str repr username @ '':'' @ py_str repr password @ '')'')))
       else Inr (py_str repr label @ '': '' @ py_str repr url))))"

definition access_row ::
  "(yaml \<Rightarrow> IPv4Network option) \<Rightarrow> (yaml \<Rightarrow> string) \<Rightarrow> yaml \<Rightarrow> yaml \<Rightarrow>
   exn + (yaml \<times> string \<times> string \<times> string)" where
  "access_row parse repr subnet svc =
     bnd (py_getitem svc ''ip_offset'') (\<lambda>ip_offset.
     bnd (compute_ip parse subnet ip_offset) (\<lambda>ip.
     bnd (py_get svc ''ports'' (YList [])) (\<lambda>port_list.
     bnd (py_join '', '' port_list) (\<lambda>ports.
     bnd (py_get svc ''access'' (YList [])) (\<lambda>access.
     bnd (py_iter access) (\<lambda>accs.
     bnd (sequence (map (access_line repr) accs)) (\<lambda>access_lines.
     bnd (py_getitem svc ''name'') (\<lambda>name.
       Inr (name, ip, (if ports = [] then ''-'' else ports),
            (if access_lines \<noteq> [] then join [CHR 0x0A] access_lines else ''-''))))))))))"

definition print_access_info :: "host \<Rightarrow> string \<Rightarrow> world \<Rightarrow> (exn + unit) \<times> world" where
  "print_access_info h lab_id w =
     (case load lab_id w of
        Inl e \<Rightarrow> (Inl e, w)
      | Inr lab_data \<Rightarrow>
          (case bnd (py_getitem lab_data ''subnet'') (\<lambda>subnet.
                bnd (py_get lab_data ''services'' (YList [])) (\<lambda>services.
                bnd (py_iter services) (\<lambda>svcs.
                sequence (map (access_row (IPv4Network h) (py_repr h) subnet) svcs)))) of
             Inl e \<Rightarrow> (Inl e, w)
           | Inr rows \<Rightarrow> console_print h (AccessInfo lab_id rows) w))"

text \<open>
  \<^verbatim>\<open>LabController._run_post_start\<close>: the inner loop over the commands of one service, then
  the loop over the services. Only a \<^verbatim>\<open>DockerError\<close> is turned into a warning.
\<close>

fun run_commands :: "host \<Rightarrow> string \<Rightarrow> yaml \<Rightarrow> yaml list \<Rightarrow> world \<Rightarrow> (exn + unit) \<times> world" where
  "run_commands h project svc [] w = (Inr (), w)"
| "run_commands h project svc (cmd # rest) w =
     (case py_getitem svc ''name'' of
        Inl e \<Rightarrow> (Inl e, w)
      | Inr name \<Rightarrow>
          wbnd (console_print h (RunningPostStart name cmd) w) (\<lambda>_ w1.
            case docker_exec h project name [YStr ''sh'', YStr ''-c'', cmd] of
              None \<Rightarrow> run_commands h project svc rest w1
            | Some (DockerError m) \<Rightarrow>
                wbnd (console_print h (PostStartFailed name (DockerError m)) w1)
                  (\<lambda>_. run_commands h project svc rest)
            | Some e \<Rightarrow> (Inl e, w1)))"

fun run_services :: "host \<Rightarrow> string \<Rightarrow> yaml list \<Rightarrow> world \<Rightarrow> (exn + unit) \<times> world" where
  "run_services h project [] w = (Inr (), w)"
| "run_services h project (svc # rest) w =
     (case bnd (py_get svc ''post_start'' (YList [])) py_iter of
        Inl e \<Rightarrow> (Inl e, w)
      | Inr cmds \<Rightarrow>
          wbnd (run_commands h project svc cmds w) (\<lambda>_. run_services h project rest))"

definition run_post_start :: "host \<Rightarrow> pydict \<Rightarrow> string \<Rightarrow> world \<Rightarrow> (exn + unit) \<times> world" where
  "run_post_start h config project w =
     (case py_iter (dict_get config ''services'' (YList [])) of
        Inl e \<Rightarrow> (Inl e, w)
      | Inr svcs \<Rightarrow> run_services h project svcs w)"

text \<open>
  \<^verbatim>\<open>LabController.build\<close>, in the three parts of its text: the steps up to and including
  \<^verbatim>\<open>state.create\<close>, the body of the \<^verbatim>\<open>try\<close>, and the \<^verbatim>\<open>except (DockerError, NetworkError)\<close>
  clause around it.
\<close>

definition apply_overrides :: "pydict option \<Rightarrow> pydict \<Rightarrow> exn + pydict" where
  "apply_overrides overrides config =
     (case overrides of
        None \<Rightarrow> Inr config
      | Some ov \<Rightarrow>
          if ov = [] then Inr config
          else (case dict_get config ''settings'' (YDict []) of
                  YDict settings \<Rightarrow>
                    Inr (AList.update ''settings''
                          (YDict (fold (\<lambda>kv. AList.update (fst kv) (snd kv)) ov settings)) config)
                | _ \<Rightarrow> Inl AttributeError))"

definition lab_name :: "string option \<Rightarrow> pydict \<Rightarrow> exn + yaml" where
  "lab_name name config =
     (case name of
        Some s \<Rightarrow> if s \<noteq> [] then Inr (YStr s) else dict_getitem config ''name''
      | None \<Rightarrow> dict_getitem config ''name'')"

definition build_start ::
  "host \<Rightarrow> string \<Rightarrow> string option \<Rightarrow> pydict option \<Rightarrow> world \<Rightarrow>
   (exn + (pydict \<times> string \<times> string)) \<times> world" where
  "build_start h template name overrides w =
     wbnd (console_print h (ResolvingTemplate template) w) (\<lambda>_ w.
       case bnd (load_template h template) (\<lambda>config.
            bnd (apply_overrides overrides config) (\<lambda>config.
            bnd (validate_config config) (\<lambda>_.
            bnd (interpolate_variables (py_repr h) (environ h) config) (\<lambda>config.
            bnd (lab_name name config) (\<lambda>n.
            bnd (generate_lab_id h n) (\<lambda>lab_id. Inr (config, lab_id))))))) of
         Inl e \<Rightarrow> (Inl e, w)
       | Inr (config, lab_id) \<Rightarrow>
           wbnd (console_print h (PrintLabId lab_id) w) (\<lambda>_ w.
             case allocate (NetworkAllocator_init (IPv4Network h) (Some (used_subnets w))) of
               Inl e \<Rightarrow> (Inl e, w)
             | Inr (subnet, used) \<Rightarrow>
                 wbnd (console_print h (PrintNetwork subnet) w) (\<lambda>_ w.
                 wbnd (create h lab_id template config (YStr subnet) w) (\<lambda>_ w.
                   (Inr (config, lab_id, subnet), w)))))"

definition build_try ::
  "host \<Rightarrow> pydict \<Rightarrow> string \<Rightarrow> string \<Rightarrow> world \<Rightarrow> (exn + string) \<times> world" where
  "build_try h config lab_id subnet w =
     (case generate (IPv4Network h) (py_repr h) config (YStr subnet) lab_id of
        Inl e \<Rightarrow> (Inl e, w)
      | Inr compose \<Rightarrow>
          wbnd (write_compose compose lab_id w) (\<lambda>compose_path w.
          wbnd (console_print h (PrintComposeFile compose_path) w) (\<lambda>_ w.
          wbnd (console_print h StartingLab w) (\<lambda>_ w.
            case docker_up h (''labforge-'' @ lab_id) of
              Some e \<Rightarrow> (Inl e, w)
            | None \<Rightarrow>
                wbnd (update_status h lab_id ''running'' w) (\<lambda>_ w.
                wbnd (console_print h LabIsRunning w) (\<lambda>_ w.
                wbnd (print_access_info h lab_id w) (\<lambda>_ w.
                wbnd (run_post_start h config (''labforge-'' @ lab_id) w) (\<lambda>_ w.
                  (Inr lab_id, w)))))))))"

fun is_caught :: "exn \<Rightarrow> bool" where
  "is_caught (DockerError m) = True"
| "is_caught (NetworkError e) = True"
| "is_caught _ = False"

definition build ::
  "host \<Rightarrow> string \<Rightarrow> string option \<Rightarrow> pydict option \<Rightarrow> world \<Rightarrow> (exn + string) \<times> world" where
  "build h template name overrides w =
     wbnd (build_start h template name overrides w) (\<lambda>(config, lab_id, subnet) w.
       case build_try h config lab_id subnet w of
         (Inr r, w) \<Rightarrow> (Inr r, w)
       | (Inl e, w) \<Rightarrow>
           if is_caught e then
             wbnd (update_status h lab_id ''error'' w) (\<lambda>_ w.
             wbnd (console_print h (BuildFailed e) w) (\<lambda>_ w. (Inl e, w)))
           else (Inl e, w))"

text \<open>
  \<^verbatim>\<open>LabController.destroy\<close>. Its messages show the id of a lab directory that exists and
  the text of a \<^verbatim>\<open>DockerError\<close>; they are taken to render, so they are printed with \<open>print\<close>.
\<close>

definition compose_exists :: "string \<Rightarrow> world \<Rightarrow> bool" where
  "compose_exists lab_id w =
     (case lookup_dir lab_id w of Some (Directory d) \<Rightarrow> compose_file d \<noteq> None | _ \<Rightarrow> False)"

definition stop_compose :: "host \<Rightarrow> string \<Rightarrow> bool \<Rightarrow> bool \<Rightarrow> world \<Rightarrow> (exn + unit) \<times> world" where
  "stop_compose h lab_id volumes force w =
     (if compose_exists lab_id w then
        (case docker_down h (''labforge-'' @ lab_id) volumes of
           None \<Rightarrow> (Inr (), w)
         | Some (DockerError m) \<Rightarrow>
             if \<not> force then (Inl (DockerError m), w)
             else (Inr (), print (DockerWarning (DockerError m)) w)
         | Some e \<Rightarrow> (Inl e, w))
      else (Inr (), w))"

definition destroy :: "host \<Rightarrow> string \<Rightarrow> bool \<Rightarrow> bool \<Rightarrow> world \<Rightarrow> (exn + unit) \<times> world" where
  "destroy h partial_id volumes force w =
     (case resolve_id partial_id w of
        Inl e \<Rightarrow> (Inl e, w)
      | Inr lab_id \<Rightarrow>
          (case bnd (load lab_id w) (\<lambda>lab_data. py_getitem lab_data ''status'') of
             Inl e \<Rightarrow> (Inl e, w)
           | Inr status \<Rightarrow>
               if status = YStr ''destroyed'' \<and> \<not> force then
                 (Inr (), print (AlreadyDestroyed lab_id) w)
               else
                 wbnd (stop_compose h lab_id volumes force (print (DestroyingLab lab_id) w)) (\<lambda>_ w.
                 wbnd (update_status h lab_id ''destroyed'' w) (\<lambda>_ w.
                 wbnd (delete lab_id w) (\<lambda>_ w.
                   (Inr (), print (LabDestroyed lab_id) w))))))"

section \<open>Notions used in the statements\<close>

text \<open>All the string values of a document, at any depth, in the order of the document.\<close>

fun strings_of :: "yaml \<Rightarrow> string list" where
  "strings_of (YStr s) = [s]"
| "strings_of (YList xs) = concat (map strings_of xs)"
| "strings_of (YDict d) = concat (map (\<lambda>kv. strings_of (snd kv)) d)"
| "strings_of _ = []"

text \<open>
  A step from \<open>w\<close> to \<open>w'\<close> keeps the record of a lab when, if \<open>w\<close> holds a record that is a
  dict, so does \<open>w'\<close>, with the same entries but for \<^verbatim>\<open>status\<close> and \<^verbatim>\<open>updated_at\<close>.
\<close>

definition keeps :: "string \<Rightarrow> world \<Rightarrow> world \<Rightarrow> bool" where
  "keeps lab_id w w' \<longleftrightarrow>
     (\<forall>st. load lab_id w = Inr (YDict st) \<longrightarrow>
        (\<exists>st'. load lab_id w' = Inr (YDict st') \<and>
           (\<forall>k. k \<noteq> ''status'' \<and> k \<noteq> ''updated_at'' \<longrightarrow> map_of st' k = map_of st k)))"

section \<open>Stand-ins for running the model\<close>

text \<open>
  Concrete values for what the code takes from outside, used to run the model on examples:
  an environment, a clock, some templates (one with an offset outside its subnet, one with an
  offset beyond the address space, one with a Windows service and a repeated name), a hash
  suffix, a \<^verbatim>\<open>docker compose\<close> that succeeds, one that fails, one that the system refuses to
  start and one that fails with the closing tag \<^verbatim>\<open>[/]\<close> in its message, a console that
  renders every message and one that refuses the text of that failure, and some data
  directories. \<open>demo_repr\<close> stands for \<^verbatim>\<open>repr\<close>, which the examples never reach.
\<close>

definition demo_repr :: "yaml \<Rightarrow> string" where
  "demo_repr v = ''<repr>''"

definition demo_environ :: "string \<Rightarrow> string option" where
  "demo_environ k = (if k = ''HOME'' then Some ''/root'' else None)"

definition demo_record :: "string \<Rightarrow> string \<Rightarrow> string \<Rightarrow> entry" where
  "demo_record lab_id status subnet =
     Directory \<lparr>state_file = Some (Document (YDict
                   [(''lab_id'', YStr lab_id), (''status'', YStr status), (''subnet'', YStr subnet)])),
                compose_file = None\<rparr>"

definition demo_clock :: "nat \<Rightarrow> string" where
  "demo_clock n = ''2026-01-01T00:00:0'' @ str_nat n"

definition demo_config :: pydict where
  "demo_config =
     [(''name'', YStr ''malware-lab''),
      (''settings'', YDict [(''password'', YStr ''x1'')]),
      (''services'', YList
         [YDict [(''name'', YStr ''victim''), (''image'', YStr ''ubuntu:22.04''),
                 (''ip_offset'', YInt 10), (''hostname'', YStr ''victim-${password}'')]])]"

definition bad_offset_config :: pydict where
  "bad_offset_config =
     [(''name'', YStr ''bad-offset''),
      (''services'', YList
         [YDict [(''name'', YStr ''victim''), (''image'', YStr ''ubuntu:22.04''),
                 (''ip_offset'', YInt 300)]])]"

definition huge_offset_config :: pydict where
  "huge_offset_config =
     [(''name'', YStr ''huge-offset''),
      (''services'', YList
         [YDict [(''name'', YStr ''victim''), (''image'', YStr ''ubuntu:22.04''),
                 (''ip_offset'', YInt 4294967296)]])]"

definition windows_config :: pydict where
  "windows_config =
     [(''name'', YStr ''windows-lab''),
      (''services'', YList
         [YDict [(''name'', YStr ''dc''), (''image'', YStr ''dockurr/windows''),
                 (''ip_offset'', YInt 10), (''platform'', YStr ''windows-docker''),
                 (''cap_add'', YList [YStr ''SYS_ADMIN'']), (''network_mode'', YStr ''host'')],
          YDict [(''name'', YStr ''web''), (''image'', YStr ''nginx''), (''ip_offset'', YInt 20)],
          YDict [(''name'', YStr ''web''), (''image'', YStr ''httpd''), (''ip_offset'', YInt 30),
                 (''cap_add'', YList [YStr ''NET_RAW''])]])]"

definition demo_templates :: "string \<Rightarrow> exn + pydict" where
  "demo_templates template =
     (if template = ''malware-lab'' then Inr demo_config
      else if template = ''bad-offset'' then Inr bad_offset_config
      else if template = ''huge-offset'' then Inr huge_offset_config
      else if template = ''windows-lab'' then Inr windows_config
      else Inl (ConfigError (TemplateNotFound template)))"

definition demo_suffix :: "yaml \<Rightarrow> string" where
  "demo_suffix name = ''a1b2c3d4''"

definition docker_ok :: "string \<Rightarrow> yaml list \<Rightarrow> exn option" where
  "docker_ok project args = None"

definition docker_failing :: "string \<Rightarrow> yaml list \<Rightarrow> exn option" where
  "docker_failing project args = Some (DockerError ''Command failed'')"

definition docker_denied :: "string \<Rightarrow> yaml list \<Rightarrow> exn option" where
  "docker_denied project args = Some PermissionError"

definition demo_renders :: "message \<Rightarrow> bool" where
  "demo_renders m = True"

definition docker_markup :: "string \<Rightarrow> yaml list \<Rightarrow> exn option" where
  "docker_markup project args = Some (DockerError ''Command failed: [/]'')"

definition markup_renders :: "message \<Rightarrow> bool" where
  "markup_renders m = (m \<noteq> BuildFailed (DockerError ''Command failed: [/]''))"

definition demo_host :: host where
  "demo_host =
     \<lparr>IPv4Network = IPv4Network_of, py_repr = demo_repr, environ = demo_environ,
      clock = demo_clock, load_template = demo_templates, hash_suffix = demo_suffix,
      docker = docker_ok, renders = demo_renders\<rparr>"

definition empty_world :: world where
  "empty_world = \<lparr>data_dir = Some [], console = [], ticks = 0\<rparr>"

definition corrupt_world :: world where
  "corrupt_world =
     \<lparr>data_dir = Some [(''abc-111'', demo_record ''abc-111'' ''running'' ''172.30.1.0/24x'')],
      console = [], ticks = 0\<rparr>"

definition destroyed_world :: world where
  "destroyed_world =
     \<lparr>data_dir = Some [(''abc-111'', demo_record ''abc-111'' ''destroyed'' ''172.30.1.0/24'')],
      console = [], ticks = 0\<rparr>"

definition failing_host :: host where
  "failing_host = demo_host\<lparr>docker := docker_failing\<rparr>"

definition denied_host :: host where
  "denied_host = demo_host\<lparr>docker := docker_denied\<rparr>"

definition markup_host :: host where
  "markup_host = demo_host\<lparr>docker := docker_markup, renders := markup_renders\<rparr>"

section \<open>Properties of the subnet allocator\<close>

lemma subnets_base:
  "subnets BASE_NETWORK SUBNET_PREFIX =
     map (\<lambda>i. \<lparr>network_address = 2887647232 + int i * 256, prefixlen = 24\<rparr>) [0 ..< 256]"
  by (simp add: subnets_def BASE_NETWORK_def SUBNET_PREFIX_def)

lemma pow_diff: "k \<le> 32 \<Longrightarrow> (2::int)^32 - 2^k = push_bit k (mask (32 - k))"
  by (simp add: push_bit_eq_mult mask_eq_exp_minus_1 algebra_simps flip: power_add)

lemma bit_lt: "0 \<le> ip \<Longrightarrow> ip < 2^32 \<Longrightarrow> bit ip n \<Longrightarrow> n < 32" for ip :: int
  by (metis bit_take_bit_iff take_bit_int_eq_self)

lemma and_netmask:
  fixes ip :: int
  assumes a: "0 \<le> ip" "ip < 2^32" "k \<le> 32"
  shows "ip AND (2^32 - 2^k) = ip - ip mod 2^k"
proof -
  have "ip - ip mod 2^k = push_bit k (drop_bit k ip)"
    by (simp add: push_bit_eq_mult drop_bit_eq_div minus_mod_eq_mult_div)
  moreover have "ip AND push_bit k (mask (32 - k)) = push_bit k (drop_bit k ip)"
    using a by (auto simp: bit_eq_iff bit_simps dest: bit_lt[OF a(1) a(2)])
  moreover have "ip AND (2^32 - 2^k) = ip AND push_bit k (mask (32 - k))"
    using pow_diff[OF a(3)] by (simp only:)
  ultimately show ?thesis by (simp only:)
qed

lemma contains_iff:
  assumes "0 \<le> ip" "ip < 2^32" "prefixlen net \<le> 32"
  shows "contains net ip \<longleftrightarrow> ip - ip mod 2 ^ (32 - prefixlen net) = network_address net"
proof -
  have "ip AND (2^32 - 2^(32 - prefixlen net)) = ip - ip mod 2 ^ (32 - prefixlen net)"
    by (rule and_netmask[OF assms(1,2)]) simp
  then show ?thesis unfolding contains_def netmask_def by (simp only:)
qed

lemma round_down_256:
  fixes ip a :: int
  assumes "a mod 256 = 0"
  shows "ip - ip mod 256 = a \<longleftrightarrow> a \<le> ip \<and> ip < a + 256"
proof
  assume h: "ip - ip mod 256 = a"
  have "0 \<le> ip mod 256" "ip mod 256 < 256" by simp_all
  with h show "a \<le> ip \<and> ip < a + 256" by linarith
next
  assume h: "a \<le> ip \<and> ip < a + 256"
  define r where "r = ip - a"
  have r: "0 \<le> r" "r < 256" "ip = a + r" using h by (simp_all add: r_def)
  have "(a + r) mod 256 = r mod 256" using assms by (metis add.left_neutral mod_add_left_eq)
  also have "\<dots> = r" using r(1,2) by simp
  finally show "ip - ip mod 256 = a" using r(3) by simp
qed

lemma contains_24:
  assumes "prefixlen net = 24" "network_address net mod 256 = 0" "0 \<le> ip" "ip < 2^32"
  shows "contains net ip \<longleftrightarrow> network_address net \<le> ip \<and> ip < network_address net + 256"
proof -
  have "contains net ip \<longleftrightarrow> ip - ip mod 2 ^ (32 - prefixlen net) = network_address net"
    by (rule contains_iff[OF assms(3,4)]) (simp add: assms(1))
  also have "\<dots> \<longleftrightarrow> ip - ip mod 256 = network_address net"
    by (simp add: assms(1))
  finally show ?thesis using round_down_256[OF assms(2), of ip] by simp
qed

lemma allocate_loop_split:
  assumes "\<exists>m\<in>set xs. network_address m \<noteq> network_address BASE_NETWORK \<and> m \<notin> used"
  shows "\<exists>ys n zs. xs = ys @ n # zs \<and>
           (\<forall>y\<in>set ys. network_address y = network_address BASE_NETWORK \<or> y \<in> used) \<and>
           network_address n \<noteq> network_address BASE_NETWORK \<and> n \<notin> used \<and>
           allocate_loop xs used = Inr (str_IPv4Network n, insert n used)"
  using assms
proof (induction xs)
  case Nil
  then show ?case by simp
next
  case (Cons x xs)
  show ?case
  proof (cases "network_address x \<noteq> network_address BASE_NETWORK \<and> x \<notin> used")
    case True
    then have "x # xs = [] @ x # xs \<and> allocate_loop (x # xs) used = Inr (str_IPv4Network x, insert x used)"
      by simp
    with True show ?thesis by (metis empty_iff list.set(1))
  next
    case False
    with Cons.prems have "\<exists>m\<in>set xs. network_address m \<noteq> network_address BASE_NETWORK \<and> m \<notin> used"
      by auto
    from Cons.IH[OF this] obtain ys n zs where h: "xs = ys @ n # zs"
      "\<forall>y\<in>set ys. network_address y = network_address BASE_NETWORK \<or> y \<in> used"
      "network_address n \<noteq> network_address BASE_NETWORK" "n \<notin> used"
      "allocate_loop xs used = Inr (str_IPv4Network n, insert n used)" by blast
    have "x # xs = (x # ys) @ n # zs" using h(1) by simp
    moreover have "\<forall>y\<in>set (x # ys). network_address y = network_address BASE_NETWORK \<or> y \<in> used"
      using h(2) False by auto
    moreover have "allocate_loop (x # xs) used = Inr (str_IPv4Network n, insert n used)"
      using False h(5) by auto
    ultimately show ?thesis using h(3,4) by blast
  qed
qed

lemma allocate_loop_exhausted:
  "\<forall>m\<in>set xs. network_address m \<noteq> network_address BASE_NETWORK \<longrightarrow> m \<in> used \<Longrightarrow>
   allocate_loop xs used = Inl (NetworkError NoSubnetAvailable)"
  by (induction xs) auto

lemma pool_set:
  "set (subnets BASE_NETWORK SUBNET_PREFIX) =
     (\<lambda>i. \<lparr>network_address = 2887647232 + int i * 256, prefixlen = 24\<rparr>) ` {0 ..< 256}"
  unfolding subnets_base by (simp only: set_map set_upt)

lemma pool_sorted:
  "sorted_wrt (\<lambda>a b. network_address a < network_address b) (subnets BASE_NETWORK SUBNET_PREFIX)"
proof -
  have "sorted_wrt (\<lambda>i j. i < j) [0 ..< (256::nat)]" by (rule sorted_wrt_upt)
  then have "sorted_wrt (\<lambda>i j. (2887647232 + int i * 256 :: int) < 2887647232 + int j * 256) [0 ..< (256::nat)]"
    by (rule sorted_wrt_mono_rel[rotated]) simp
  then show ?thesis unfolding subnets_base by (simp only: sorted_wrt_map IPv4Network.simps)
qed

lemma pool_member:
  assumes "m \<in> set (subnets BASE_NETWORK SUBNET_PREFIX)"
  shows "prefixlen m = 24" "network_address m mod 256 = 0" "2887647232 \<le> network_address m"
        "network_address m + 256 \<le> 2887712768"
  using assms unfolding pool_set by auto

lemma base_address: "network_address BASE_NETWORK = 2887647232"
  by (simp add: BASE_NETWORK_def)

lemma allocate_loop_skip:
  "\<forall>y\<in>set ys. network_address y = network_address BASE_NETWORK \<or> y \<in> used \<Longrightarrow>
   allocate_loop (ys @ zs) used = allocate_loop zs used"
  by (induction ys) auto

text \<open>
  Claim C1. Whenever some /24 block of the pool 172.30.0.0/16 other than the reserved first
  block 172.30.0.0/24 is missing from the used set, \<open>allocate\<close> returns (the string of) a
  /24 block of the pool that is not the reserved block and not in the used set, and no
  free, unreserved block of the pool has a smaller address: it is the first free block
  in ascending address order. The block is added to the used set.
\<close>

theorem allocate_first_free:
  assumes "\<exists>m\<in>set (subnets BASE_NETWORK SUBNET_PREFIX).
             m \<noteq> \<lparr>network_address = network_address BASE_NETWORK, prefixlen = SUBNET_PREFIX\<rparr> \<and> m \<notin> used"
  shows "\<exists>n. allocate used = Inr (str_IPv4Network n, insert n used) \<and>
             n \<in> set (subnets BASE_NETWORK SUBNET_PREFIX) \<and> prefixlen n = 24 \<and>
             n \<noteq> \<lparr>network_address = network_address BASE_NETWORK, prefixlen = SUBNET_PREFIX\<rparr> \<and>
             n \<notin> used \<and>
             (\<forall>m\<in>set (subnets BASE_NETWORK SUBNET_PREFIX).
                m \<noteq> \<lparr>network_address = network_address BASE_NETWORK, prefixlen = SUBNET_PREFIX\<rparr> \<and> m \<notin> used
                \<longrightarrow> network_address n \<le> network_address m)"
proof -
  let ?pool = "subnets BASE_NETWORK SUBNET_PREFIX"
  let ?res = "\<lparr>network_address = network_address BASE_NETWORK, prefixlen = SUBNET_PREFIX\<rparr>"
  have res_iff: "m \<noteq> ?res \<longleftrightarrow> network_address m \<noteq> network_address BASE_NETWORK"
    if "m \<in> set ?pool" for m
    using pool_member(1)[OF that] by (cases m) (auto simp: SUBNET_PREFIX_def)
  from assms have "\<exists>m\<in>set ?pool. network_address m \<noteq> network_address BASE_NETWORK \<and> m \<notin> used"
    using res_iff by blast
  from allocate_loop_split[OF this] obtain ys n zs where h: "?pool = ys @ n # zs"
      "\<forall>y\<in>set ys. network_address y = network_address BASE_NETWORK \<or> y \<in> used"
      "network_address n \<noteq> network_address BASE_NETWORK" "n \<notin> used"
      "allocate_loop ?pool used = Inr (str_IPv4Network n, insert n used)" by blast
  have n_in: "n \<in> set ?pool" using h(1) by simp
  have sorted: "sorted_wrt (\<lambda>a b. network_address a < network_address b) (ys @ n # zs)"
    using pool_sorted h(1) by simp
  have least: "network_address n \<le> network_address m"
    if m: "m \<in> set ?pool" "m \<noteq> ?res" "m \<notin> used" for m
  proof -
    have "network_address m \<noteq> network_address BASE_NETWORK" using res_iff[OF m(1)] m(2) by simp
    with m(3) h(2) have "m \<notin> set ys" by blast
    with m(1) h(1) have "m = n \<or> m \<in> set zs" by auto
    then show ?thesis using sorted by (auto simp: sorted_wrt_append)
  qed
  have "allocate used = Inr (str_IPv4Network n, insert n used)"
    using h(5) by (simp add: allocate_def)
  moreover have "n \<noteq> ?res" using res_iff[OF n_in] h(3) by simp
  moreover have "prefixlen n = 24" using pool_member(1)[OF n_in] .
  ultimately show ?thesis using n_in h(4) least by blast
qed

lemma pool_split_last:
  "subnets BASE_NETWORK SUBNET_PREFIX =
     \<lparr>network_address = 2887647232, prefixlen = 24\<rparr> #
     map (\<lambda>i. \<lparr>network_address = 2887647232 + int i * 256, prefixlen = 24\<rparr>) [1 ..< 255] @
     [\<lparr>network_address = 2887712512, prefixlen = 24\<rparr>]"
proof -
  have "[0 ..< Suc 255] = [0 ..< 255] @ [255::nat]" by (rule upt_Suc_append) simp
  moreover have "[0 ..< 255] = 0 # [Suc 0 ..< 255::nat]" by (rule upt_conv_Cons) simp
  ultimately have "[0 ..< 256] = 0 # [1 ..< 255] @ [255::nat]" by simp
  then show ?thesis unfolding subnets_base by (simp only: list.map map_append) simp
qed

theorem allocate_first_free_witness:
  "\<exists>n. allocate {\<lparr>network_address = 2887647488, prefixlen = 24\<rparr>} =
          Inr (str_IPv4Network n, insert n {\<lparr>network_address = 2887647488, prefixlen = 24\<rparr>}) \<and>
        n \<in> set (subnets BASE_NETWORK SUBNET_PREFIX) \<and>
        n \<notin> {\<lparr>network_address = 2887647488, prefixlen = 24\<rparr>}"
proof -
  have "\<lparr>network_address = 2887647744, prefixlen = 24\<rparr> \<in> set (subnets BASE_NETWORK SUBNET_PREFIX)"
    unfolding pool_set by (rule image_eqI[where x = 2]) simp_all
  then have "\<exists>m\<in>set (subnets BASE_NETWORK SUBNET_PREFIX).
      m \<noteq> \<lparr>network_address = network_address BASE_NETWORK, prefixlen = SUBNET_PREFIX\<rparr> \<and>
      m \<notin> {\<lparr>network_address = 2887647488, prefixlen = 24\<rparr>}"
    by (rule bexI[rotated]) (simp add: base_address)
  from allocate_first_free[OF this] show ?thesis by blast
qed

text \<open>
  Claim C2, with the number of blocks the code has. When every /24 block of the pool
  other than the reserved first one is in the used set, \<open>allocate\<close> fails with the
  "no available subnets" \<open>NetworkError\<close>. The pool lists 256 distinct blocks, the reserved
  one first, so 255 blocks are allocatable.
\<close>

theorem allocate_exhausted:
  assumes "\<forall>m\<in>set (subnets BASE_NETWORK SUBNET_PREFIX).
             m \<noteq> \<lparr>network_address = network_address BASE_NETWORK, prefixlen = SUBNET_PREFIX\<rparr> \<longrightarrow> m \<in> used"
  shows "allocate used = Inl (NetworkError NoSubnetAvailable) \<and>
         hd (subnets BASE_NETWORK SUBNET_PREFIX) =
           \<lparr>network_address = network_address BASE_NETWORK, prefixlen = SUBNET_PREFIX\<rparr> \<and>
         distinct (subnets BASE_NETWORK SUBNET_PREFIX) \<and>
         length (tl (subnets BASE_NETWORK SUBNET_PREFIX)) = 255"
proof -
  have "\<forall>m\<in>set (subnets BASE_NETWORK SUBNET_PREFIX).
          network_address m \<noteq> network_address BASE_NETWORK \<longrightarrow> m \<in> used"
    using assms by auto
  then have "allocate used = Inl (NetworkError NoSubnetAvailable)"
    unfolding allocate_def by (rule allocate_loop_exhausted)
  moreover have "hd (subnets BASE_NETWORK SUBNET_PREFIX) =
      \<lparr>network_address = network_address BASE_NETWORK, prefixlen = SUBNET_PREFIX\<rparr>"
    unfolding pool_split_last by (simp add: base_address SUBNET_PREFIX_def)
  moreover have "distinct (subnets BASE_NETWORK SUBNET_PREFIX)"
    unfolding subnets_base by (simp only: distinct_map distinct_upt; simp add: inj_on_def)
  moreover have "length (tl (subnets BASE_NETWORK SUBNET_PREFIX)) = 255"
    unfolding subnets_base by (simp only: length_tl length_map length_upt; simp)
  ultimately show ?thesis by simp
qed

theorem allocate_exhausted_witness:
  "allocate (set (tl (subnets BASE_NETWORK SUBNET_PREFIX))) = Inl (NetworkError NoSubnetAvailable) \<and>
   length (tl (subnets BASE_NETWORK SUBNET_PREFIX)) = 255"
proof -
  have hd: "hd (subnets BASE_NETWORK SUBNET_PREFIX) =
      \<lparr>network_address = network_address BASE_NETWORK, prefixlen = SUBNET_PREFIX\<rparr>"
    unfolding pool_split_last by (simp add: base_address SUBNET_PREFIX_def)
  have ne: "subnets BASE_NETWORK SUBNET_PREFIX \<noteq> []"
    unfolding pool_split_last by simp
  have "\<forall>m\<in>set (subnets BASE_NETWORK SUBNET_PREFIX).
          m \<noteq> \<lparr>network_address = network_address BASE_NETWORK, prefixlen = SUBNET_PREFIX\<rparr>
          \<longrightarrow> m \<in> set (tl (subnets BASE_NETWORK SUBNET_PREFIX))"
    using hd ne by (metis list.exhaust_sel set_ConsD)
  from allocate_exhausted[OF this] show ?thesis by simp
qed

text \<open>
  The count of 254 allocatable blocks does not hold: with the 254 blocks 172.30.1.0/24 to
  172.30.254.0/24 used, \<open>allocate\<close> still succeeds and returns the 255th, 172.30.255.0/24.
\<close>

theorem allocate_254_blocks_counterexample:
  "card (set (take 254 (tl (subnets BASE_NETWORK SUBNET_PREFIX)))) = 254 \<and>
   hd (subnets BASE_NETWORK SUBNET_PREFIX) \<notin> set (take 254 (tl (subnets BASE_NETWORK SUBNET_PREFIX))) \<and>
   allocate (set (take 254 (tl (subnets BASE_NETWORK SUBNET_PREFIX)))) =
     Inr (''172.30.255.0/24'',
          insert \<lparr>network_address = 2887712512, prefixlen = 24\<rparr>
            (set (take 254 (tl (subnets BASE_NETWORK SUBNET_PREFIX))))) \<and>
   length (tl (subnets BASE_NETWORK SUBNET_PREFIX)) \<noteq> 254"
proof -
  let ?f = "\<lambda>i. \<lparr>network_address = 2887647232 + int i * 256, prefixlen = 24\<rparr>"
  let ?mid = "map ?f [1 ..< 255]"
  let ?last = "\<lparr>network_address = 2887712512, prefixlen = 24\<rparr>"
  let ?first = "\<lparr>network_address = 2887647232, prefixlen = 24\<rparr>"
  have len: "length ?mid = 254" by (simp only: length_map length_upt; simp)
  have tk: "take 254 (tl (subnets BASE_NETWORK SUBNET_PREFIX)) = ?mid"
    unfolding pool_split_last using len by (simp only: list.sel take_append take_all) simp
  have dist: "distinct ?mid" by (simp only: distinct_map distinct_upt; simp add: inj_on_def)
  have card: "card (set ?mid) = 254" using distinct_card[OF dist] len by simp
  have setmid: "set ?mid = ?f ` {1 ..< 255}" by (simp only: set_map set_upt)
  have first: "?first \<notin> set ?mid" unfolding setmid by auto
  have last: "?last \<notin> set ?mid" unfolding setmid by auto
  have hd: "hd (subnets BASE_NETWORK SUBNET_PREFIX) = ?first" unfolding pool_split_last by simp
  have "allocate_loop ((?first # ?mid) @ [?last]) (set ?mid) = allocate_loop [?last] (set ?mid)"
    by (rule allocate_loop_skip) (auto simp: base_address)
  also have "\<dots> = Inr (str_IPv4Network ?last, insert ?last (set ?mid))"
    using last by (simp add: base_address)
  also have "str_IPv4Network ?last = ''172.30.255.0/24''"
    by (simp add: str_IPv4Network_def str_IPv4Address_def)
  finally have "allocate (set ?mid) = Inr (''172.30.255.0/24'', insert ?last (set ?mid))"
    unfolding allocate_def pool_split_last by simp
  moreover have "length (tl (subnets BASE_NETWORK SUBNET_PREFIX)) \<noteq> 254"
    unfolding subnets_base by (simp only: length_tl length_map length_upt; simp)
  ultimately show ?thesis using card first hd unfolding tk by simp
qed

lemma compute_ip_24:
  assumes p: "parse subnet = Some net"
    and net: "prefixlen net = 24" "network_address net mod 256 = 0" "0 \<le> network_address net"
      "network_address net + 256 \<le> 2 ^ 32"
    and off: "py_int offset = Some n"
  shows "compute_ip parse subnet offset =
           (if 0 \<le> n \<and> n \<le> 255 then Inr (str_IPv4Address (network_address net + n))
            else if network_address net + n < 0 \<or> 2 ^ 32 \<le> network_address net + n then Inl ValueError
            else Inl (NetworkError (OffsetOutOfRange offset subnet)))"
proof (cases "network_address net + n < 0 \<or> 2 ^ 32 \<le> network_address net + n")
  case True
  then have "\<not> (0 \<le> n \<and> n \<le> 255)" using net(3,4) by auto
  with True show ?thesis by (simp add: compute_ip_def p address_add_def off)
next
  case False
  then have r: "0 \<le> network_address net + n" "network_address net + n < 2 ^ 32" by auto
  have "contains net (network_address net + n) \<longleftrightarrow> 0 \<le> n \<and> n \<le> 255"
    using contains_24[OF net(1,2) r] by auto
  with False show ?thesis by (simp add: compute_ip_def p address_add_def off)
qed

text \<open>
  Claim C3. Let \<open>net\<close> be any /24 block of the IPv4 address space: prefix length 24, a
  network address that is a multiple of 256, the whole block within 0 .. 2^32 - 1 (what
  the library's network objects of that prefix are), written as any document \<open>subnet\<close> that
  the library reads as \<open>net\<close>. For every offset from 0 to 254, \<open>compute_ip\<close> returns the
  string of network address + offset, an address the subnet contains and that lies in its
  address range. For offset 256 it fails with the "out of range" \<open>NetworkError\<close> when the
  address after the block exists, that is for every /24 but the last one of the address
  space, 255.255.255.0/24; there the sum is no IPv4 address and \<open>compute_ip\<close> fails with the
  library's \<^verbatim>\<open>ValueError\<close> before it tests the range. And whenever \<open>compute_ip\<close> accepts an
  offset at all, the result is network address + offset and lies inside the subnet. Inside
  means a member of the block, from its network address to its broadcast address, as the
  code tests it.
\<close>

theorem compute_ip_inside_subnet:
  assumes "parse subnet = Some net" and "prefixlen net = 24"
    and "network_address net mod 256 = 0" and "0 \<le> network_address net"
    and "network_address net + 256 \<le> 2 ^ 32"
  shows "(\<forall>offset. 0 \<le> offset \<and> offset \<le> 254 \<longrightarrow>
            compute_ip parse subnet (YInt offset) = Inr (str_IPv4Address (network_address net + offset)) \<and>
            contains net (network_address net + offset) \<and>
            network_address net \<le> network_address net + offset \<and>
            network_address net + offset < network_address net + 2 ^ (32 - prefixlen net)) \<and>
         compute_ip parse subnet (YInt 256) =
           (if network_address net + 256 < 2 ^ 32
            then Inl (NetworkError (OffsetOutOfRange (YInt 256) subnet))
            else Inl ValueError) \<and>
         (\<forall>offset s. compute_ip parse subnet offset = Inr s \<longrightarrow>
            (\<exists>n. py_int offset = Some n \<and> s = str_IPv4Address (network_address net + n) \<and>
                 contains net (network_address net + n) \<and>
                 network_address net \<le> network_address net + n \<and>
                 network_address net + n < network_address net + 2 ^ (32 - prefixlen net)))"
proof -
  note net = assms(2-5)
  have c: "contains net (network_address net + n) \<longleftrightarrow> 0 \<le> n \<and> n \<le> 255"
    if "0 \<le> network_address net + n" "network_address net + n < 2 ^ 32" for n
    using contains_24[OF net(1,2) that] by auto
  have 1: "compute_ip parse subnet (YInt offset) = Inr (str_IPv4Address (network_address net + offset)) \<and>
            contains net (network_address net + offset) \<and>
            network_address net \<le> network_address net + offset \<and>
            network_address net + offset < network_address net + 2 ^ (32 - prefixlen net)"
    if "0 \<le> offset \<and> offset \<le> 254" for offset
  proof -
    have "compute_ip parse subnet (YInt offset) = Inr (str_IPv4Address (network_address net + offset))"
      using compute_ip_24[where parse=parse and subnet=subnet, OF assms(1) net, of "YInt offset" offset] that by simp
    moreover have "contains net (network_address net + offset)"
      using c[of offset] that net(3,4) by simp
    ultimately show ?thesis using that net(1) by simp
  qed
  have 2: "compute_ip parse subnet (YInt 256) =
           (if network_address net + 256 < 2 ^ 32
            then Inl (NetworkError (OffsetOutOfRange (YInt 256) subnet))
            else Inl ValueError)"
    using compute_ip_24[where parse=parse and subnet=subnet, OF assms(1) net, of "YInt 256" 256] net(3,4) by simp
  have 3: "\<exists>n. py_int offset = Some n \<and> s = str_IPv4Address (network_address net + n) \<and>
                 contains net (network_address net + n) \<and>
                 network_address net \<le> network_address net + n \<and>
                 network_address net + n < network_address net + 2 ^ (32 - prefixlen net)"
    if h: "compute_ip parse subnet offset = Inr s" for offset s
  proof (cases "py_int offset")
    case None
    with h show ?thesis by (simp add: compute_ip_def assms(1) address_add_def)
  next
    case (Some n)
    from h compute_ip_24[where parse=parse and subnet=subnet, OF assms(1) net Some]
    have r: "0 \<le> n \<and> n \<le> 255" "s = str_IPv4Address (network_address net + n)"
      by (auto split: if_splits)
    moreover have "contains net (network_address net + n)"
      using c[of n] r(1) net(3,4) by simp
    ultimately show ?thesis using Some net(1) by simp
  qed
  from 1 2 3 show ?thesis by blast
qed

theorem compute_ip_inside_subnet_witness:
  "IPv4Network_of (YStr ''10.1.2.0/24'') = Some \<lparr>network_address = 167838208, prefixlen = 24\<rparr> \<and>
   compute_ip IPv4Network_of (YStr ''10.1.2.0/24'') (YInt 10) = Inr ''10.1.2.10'' \<and>
   compute_ip IPv4Network_of (YStr ''10.1.2.0/24'') (YInt 256) =
     Inl (NetworkError (OffsetOutOfRange (YInt 256) (YStr ''10.1.2.0/24''))) \<and>
   compute_ip IPv4Network_of (YStr ''10.1.2.0/24'') (YBool True) = Inr ''10.1.2.1''"
proof -
  let ?net = "\<lparr>network_address = 167838208, prefixlen = 24\<rparr>"
  have p: "IPv4Network_of (YStr ''10.1.2.0/24'') = Some ?net"
    by code_simp
  have n: "prefixlen ?net = 24" "network_address ?net mod 256 = 0" "0 \<le> network_address ?net"
    "network_address ?net + 256 \<le> 2 ^ 32"
    by simp_all
  note t = compute_ip_inside_subnet[where parse=IPv4Network_of and subnet="YStr ''10.1.2.0/24''", OF p n]
  from t have "compute_ip IPv4Network_of (YStr ''10.1.2.0/24'') (YInt 10) = Inr (str_IPv4Address (167838208 + 10))"
    and "compute_ip IPv4Network_of (YStr ''10.1.2.0/24'') (YInt 256) =
     Inl (NetworkError (OffsetOutOfRange (YInt 256) (YStr ''10.1.2.0/24'')))"
    by simp_all
  moreover have "str_IPv4Address (167838208 + 10) = ''10.1.2.10''"
    by (simp add: str_IPv4Address_def)
  moreover have "compute_ip IPv4Network_of (YStr ''10.1.2.0/24'') (YBool True) = Inr ''10.1.2.1''"
    by code_simp
  ultimately show ?thesis using p by simp
qed

text \<open>
  Claim C3, the /24 it fails for: 255.255.255.0/24 is a /24 subnet, and for offset 256
  \<open>compute_ip\<close> fails with \<^verbatim>\<open>ValueError\<close>, not with the "out of range" \<open>NetworkError\<close>.
\<close>

theorem compute_ip_last_block_counterexample:
  "IPv4Network_of (YStr ''255.255.255.0/24'') = Some \<lparr>network_address = 4294967040, prefixlen = 24\<rparr> \<and>
   compute_ip IPv4Network_of (YStr ''255.255.255.0/24'') (YInt 256) = Inl ValueError \<and>
   compute_ip IPv4Network_of (YStr ''255.255.255.0/24'') (YInt 256) \<noteq>
     Inl (NetworkError (OffsetOutOfRange (YInt 256) (YStr ''255.255.255.0/24'')))"
proof -
  have p: "IPv4Network_of (YStr ''255.255.255.0/24'') = Some \<lparr>network_address = 4294967040, prefixlen = 24\<rparr>"
    by code_simp
  then have "compute_ip IPv4Network_of (YStr ''255.255.255.0/24'') (YInt 256) = Inl ValueError"
    by (simp add: compute_ip_def address_add_def)
  with p show ?thesis by simp
qed

lemma init_fold:
  "fold (\<lambda>s used. case parse s of Some net \<Rightarrow> insert net used | None \<Rightarrow> used) xs A =
     A \<union> {net. \<exists>s\<in>set xs. parse s = Some net}"
  by (induction xs arbitrary: A) (auto split: option.splits)

text \<open>
  Claim C10. The constructor never fails: its used set holds exactly the networks of the
  entries that the library parses, so an entry that does not parse is dropped silently
  (the list with and without it give the same set). Hence a record whose subnet field is
  corrupt reserves nothing: in a data directory whose only record, of a running lab, has
  its subnet written \<^verbatim>\<open>172.30.1.0/24x\<close>, the used subnets are that one string, and the
  allocator built from them hands out 172.30.1.0/24 again.
\<close>

theorem init_discards_unparsable:
  "NetworkAllocator_init parse (Some xs) = {net. \<exists>s\<in>set xs. parse s = Some net} \<and>
   (parse s = None \<longrightarrow>
      NetworkAllocator_init parse (Some (xs @ s # ys)) = NetworkAllocator_init parse (Some (xs @ ys))) \<and>
   IPv4Network_of (YStr ''172.30.1.0/24x'') = None \<and>
   used_subnets corrupt_world = [YStr ''172.30.1.0/24x''] \<and>
   allocate (NetworkAllocator_init IPv4Network_of (Some (used_subnets corrupt_world))) =
     Inr (''172.30.1.0/24'', {\<lparr>network_address = 2887647488, prefixlen = 24\<rparr>})"
proof -
  have 1: "NetworkAllocator_init parse (Some zs) = {net. \<exists>s\<in>set zs. parse s = Some net}" for zs
    by (simp add: init_fold)
  have 2: "parse s = None \<Longrightarrow>
      NetworkAllocator_init parse (Some (xs @ s # ys)) = NetworkAllocator_init parse (Some (xs @ ys))"
    unfolding 1 by auto
  have 3: "IPv4Network_of (YStr ''172.30.1.0/24x'') = None" by code_simp
  have 4: "used_subnets corrupt_world = [YStr ''172.30.1.0/24x'']"
    by code_simp
  have "NetworkAllocator_init IPv4Network_of (Some (used_subnets corrupt_world)) = {}"
    using 3 4 by simp
  moreover have "allocate {} = Inr (''172.30.1.0/24'', {\<lparr>network_address = 2887647488, prefixlen = 24\<rparr>})"
  proof -
    have "[1 ..< 255] = 1 # [Suc 1 ..< 255::nat]" by (rule upt_conv_Cons) simp
    then show ?thesis
      unfolding allocate_def pool_split_last
      by (simp add: base_address str_IPv4Network_def str_IPv4Address_def)
  qed
  ultimately show ?thesis using 1 2 3 4 by simp
qed

theorem init_discards_unparsable_witness:
  "IPv4Network_of (YStr ''172.30.1.1/24'') = None \<and>
   NetworkAllocator_init IPv4Network_of (Some ([YStr ''172.30.2.0/24''] @ YStr ''172.30.1.1/24'' # [])) =
     NetworkAllocator_init IPv4Network_of (Some ([YStr ''172.30.2.0/24''] @ [])) \<and>
   NetworkAllocator_init IPv4Network_of (Some [YStr ''172.30.2.0/24'']) =
     {\<lparr>network_address = 2887647744, prefixlen = 24\<rparr>}"
proof -
  have n: "IPv4Network_of (YStr ''172.30.1.1/24'') = None" by code_simp
  have s: "IPv4Network_of (YStr ''172.30.2.0/24'') = Some \<lparr>network_address = 2887647744, prefixlen = 24\<rparr>"
    by code_simp
  from init_discards_unparsable[of IPv4Network_of "[YStr ''172.30.2.0/24'']" "YStr ''172.30.1.1/24''" "[]"] n
  have "NetworkAllocator_init IPv4Network_of (Some ([YStr ''172.30.2.0/24''] @ YStr ''172.30.1.1/24'' # [])) =
     NetworkAllocator_init IPv4Network_of (Some ([YStr ''172.30.2.0/24''] @ []))" by blast
  moreover have "NetworkAllocator_init IPv4Network_of (Some [YStr ''172.30.2.0/24'']) =
     {\<lparr>network_address = 2887647744, prefixlen = 24\<rparr>}" using s by simp
  ultimately show ?thesis using n by blast
qed

section \<open>Properties of the manifest generator\<close>

lemma bnd_simps [simp]: "bnd (Inl e) f = Inl e" "bnd (Inr x) f = f x"
  by (simp_all add: bnd_def)

lemma bnd_eq_Inr: "bnd m f = Inr y \<longleftrightarrow> (\<exists>x. m = Inr x \<and> f x = Inr y)"
  by (cases m) simp_all

lemma map_of_copy_key:
  "map_of (copy_key svc k service) k' =
     (if k' = k \<and> map_of svc k \<noteq> None then map_of svc k else map_of service k')"
  by (auto simp: copy_key_def update_conv' split: option.splits)

lemma build_service_keys:
  assumes "build_service parse repr (YDict svc) subnet network_name = Inr service"
  shows "(map_of svc ''network_mode'' \<noteq> None \<longrightarrow>
            map_of service ''network_mode'' = map_of svc ''network_mode'' \<and>
            map_of service ''networks'' = None) \<and>
         (map_of svc ''network_mode'' = None \<longrightarrow>
            map_of service ''network_mode'' = None \<and>
            (\<exists>ip. map_of service ''networks'' =
                    Some (YDict [(network_name, YDict [(''ipv4_address'', YStr ip)])]))) \<and>
         (is_windows_docker svc \<longrightarrow> map_of service ''cap_add'' = Some (YList [YStr ''NET_ADMIN''])) \<and>
         (\<not> is_windows_docker svc \<longrightarrow> map_of service ''cap_add'' = map_of svc ''cap_add'')"
proof -
  from assms obtain image name ip_offset ip deploy where
    s: "service =
         (let service = AList.update ''image'' image [];
           service = AList.update ''container_name'' name service;
           service = copy_key svc ''hostname'' service;
           service = AList.update ''networks''
                       (YDict [(network_name, YDict [(''ipv4_address'', YStr ip)])]) service;
           service = (if is_windows_docker svc then
                        AList.update ''stop_grace_period'' (YStr ''120s'')
                          (AList.update ''cap_add'' (YList [YStr ''NET_ADMIN''])
                            (AList.update ''devices'' (YList [YStr ''/dev/kvm'']) service))
                      else service);
           service = (case deploy of None \<Rightarrow> service | Some d \<Rightarrow> AList.update ''deploy'' d service);
           service = copy_key svc ''ports'' service;
           service = copy_key svc ''environment'' service;
           service = copy_key svc ''volumes'' service;
           service = copy_key svc ''healthcheck'' service;
           service = copy_key svc ''depends_on'' service;
           service = copy_key svc ''command'' service;
           service = copy_key svc ''restart'' service;
           service = copy_key svc ''privileged'' service;
           service = (if map_of svc ''cap_add'' \<noteq> None \<and> \<not> is_windows_docker svc
                      then copy_key svc ''cap_add'' service else service);
           service = (if map_of svc ''network_mode'' \<noteq> None
                      then AList.delete ''networks'' (copy_key svc ''network_mode'' service)
                      else service)
       in service)"
    by (auto simp: bnd_eq_Inr Let_def)
  show ?thesis
    unfolding s Let_def
    by (cases deploy) (auto simp: map_of_copy_key update_conv' delete_conv')
qed

lemma py_key_eq_sym: "py_key_eq a b \<Longrightarrow> py_key_eq b a"
  by (cases a; cases b) auto

lemma py_key_eq_trans: "py_key_eq a b \<Longrightarrow> py_key_eq b c \<Longrightarrow> py_key_eq a c"
  by (cases a; cases b; cases c) auto

lemma getitem_setitem:
  "getitem (setitem d k v) q = (if py_key_eq k q then Some v else getitem d q)"
proof (induction d)
  case Nil
  then show ?case by simp
next
  case (Cons kv d)
  obtain k' v' where kv: "kv = (k', v')" by (cases kv)
  show ?case
  proof (cases "py_key_eq k' k")
    case True
    then have "py_key_eq k' q \<longleftrightarrow> py_key_eq k q"
      using py_key_eq_trans py_key_eq_sym by blast
    with True show ?thesis by (simp add: kv)
  next
    case False
    then have "\<not> (py_key_eq k' q \<and> py_key_eq k q)"
      using py_key_eq_trans py_key_eq_sym by blast
    with False Cons.IH show ?thesis by (auto simp: kv)
  qed
qed

lemma setitem_set:
  "py_hashable k \<Longrightarrow> kv \<in> set (setitem d k v) \<Longrightarrow>
   kv \<in> set d \<or> (snd kv = v \<and> py_key_eq (fst kv) k)"
  by (induction d) (auto simp: py_hashable_def split: if_splits)

lemma generate_loop_Cons:
  "generate_loop parse repr (svc # rest) subnet network_name acc = Inr defs \<longleftrightarrow>
     (\<exists>service name. build_service parse repr svc subnet network_name = Inr service \<and>
        py_getitem svc ''name'' = Inr name \<and> py_hashable name \<and>
        generate_loop parse repr rest subnet network_name (setitem acc name service) = Inr defs)"
  by (auto simp: bnd_eq_Inr split: if_splits)

lemma generate_loop_defs:
  "generate_loop parse repr items subnet network_name acc = Inr defs \<Longrightarrow> kv \<in> set defs \<Longrightarrow>
   kv \<in> set acc \<or>
   (\<exists>svc name. svc \<in> set items \<and>
      build_service parse repr svc subnet network_name = Inr (snd kv) \<and>
      py_getitem svc ''name'' = Inr name \<and> py_key_eq (fst kv) name)"
proof (induction items arbitrary: acc)
  case Nil
  then show ?case by simp
next
  case (Cons svc rest)
  from Cons.prems(1) obtain service name where
    b: "build_service parse repr svc subnet network_name = Inr service"
    and n: "py_getitem svc ''name'' = Inr name" "py_hashable name"
    and r: "generate_loop parse repr rest subnet network_name (setitem acc name service) = Inr defs"
    unfolding generate_loop_Cons by blast
  from Cons.IH[OF r Cons.prems(2)] show ?case
  proof
    assume "kv \<in> set (setitem acc name service)"
    with n(2) have "kv \<in> set acc \<or> (snd kv = service \<and> py_key_eq (fst kv) name)"
      by (rule setitem_set)
    then show ?thesis using b n(1) by auto
  next
    assume "\<exists>svc name. svc \<in> set rest \<and>
      build_service parse repr svc subnet network_name = Inr (snd kv) \<and>
      py_getitem svc ''name'' = Inr name \<and> py_key_eq (fst kv) name"
    then show ?thesis by auto
  qed
qed

lemma generate_loop_member:
  "generate_loop parse repr items subnet network_name acc = Inr defs \<Longrightarrow> svc \<in> set items \<Longrightarrow>
   \<exists>service name. build_service parse repr svc subnet network_name = Inr service \<and>
      py_getitem svc ''name'' = Inr name \<and> py_hashable name"
proof (induction items arbitrary: acc)
  case Nil
  then show ?case by simp
next
  case (Cons a rest)
  from Cons.prems(1) obtain service name where
    b: "build_service parse repr a subnet network_name = Inr service"
    and n: "py_getitem a ''name'' = Inr name" "py_hashable name"
    and r: "generate_loop parse repr rest subnet network_name (setitem acc name service) = Inr defs"
    unfolding generate_loop_Cons by blast
  show ?case
  proof (cases "svc = a")
    case True
    with b n show ?thesis by blast
  next
    case False
    with Cons.prems(2) have "svc \<in> set rest" by simp
    from Cons.IH[OF r this] show ?thesis .
  qed
qed

lemma generate_loop_append:
  "generate_loop parse repr (pre @ rest) subnet network_name acc = Inr defs \<Longrightarrow>
   \<exists>mid. generate_loop parse repr pre subnet network_name acc = Inr mid \<and>
         generate_loop parse repr rest subnet network_name mid = Inr defs"
proof (induction pre arbitrary: acc)
  case Nil
  then show ?case by simp
next
  case (Cons a pre)
  from Cons.prems obtain service name where
    b: "build_service parse repr a subnet network_name = Inr service"
    and n: "py_getitem a ''name'' = Inr name" "py_hashable name"
    and r: "generate_loop parse repr (pre @ rest) subnet network_name (setitem acc name service) = Inr defs"
    unfolding append_Cons generate_loop_Cons by blast
  from Cons.IH[OF r] obtain mid where
    "generate_loop parse repr pre subnet network_name (setitem acc name service) = Inr mid"
    "generate_loop parse repr rest subnet network_name mid = Inr defs" by blast
  with b n show ?case unfolding generate_loop_Cons by blast
qed

lemma generate_loop_other:
  "generate_loop parse repr items subnet network_name acc = Inr defs \<Longrightarrow>
   \<forall>s\<in>set items. \<forall>n. py_getitem s ''name'' = Inr n \<longrightarrow> \<not> py_key_eq n q \<Longrightarrow>
   getitem defs q = getitem acc q"
proof (induction items arbitrary: acc)
  case Nil
  then show ?case by simp
next
  case (Cons a rest)
  from Cons.prems(1) obtain service name where
    n: "py_getitem a ''name'' = Inr name"
    and r: "generate_loop parse repr rest subnet network_name (setitem acc name service) = Inr defs"
    unfolding generate_loop_Cons by blast
  from Cons.prems(2) n have "\<not> py_key_eq name q" by simp
  moreover from Cons.prems(2) have "\<forall>s\<in>set rest. \<forall>n. py_getitem s ''name'' = Inr n \<longrightarrow> \<not> py_key_eq n q"
    by simp
  from Cons.IH[OF r this] have "getitem defs q = getitem (setitem acc name service) q" .
  ultimately show ?case by (simp add: getitem_setitem)
qed

lemma generate_loop_last:
  assumes l: "generate_loop parse repr items subnet network_name acc = Inr defs"
    and m: "svc \<in> set items"
  shows "\<exists>name pre last post service.
           py_getitem svc ''name'' = Inr name \<and> items = pre @ last # post \<and>
           (\<exists>n. py_getitem last ''name'' = Inr n \<and> py_key_eq n name) \<and>
           (\<forall>s\<in>set post. \<forall>n. py_getitem s ''name'' = Inr n \<longrightarrow> \<not> py_key_eq n name) \<and>
           build_service parse repr last subnet network_name = Inr service \<and>
           getitem defs name = Some service"
proof -
  from generate_loop_member[OF l m] obtain name where
    n: "py_getitem svc ''name'' = Inr name" "py_hashable name" by blast
  let ?P = "\<lambda>s. \<exists>n. py_getitem s ''name'' = Inr n \<and> py_key_eq n name"
  from n have "?P svc" by (auto simp: py_hashable_def)
  with m have "\<exists>s\<in>set items. ?P s" by blast
  from split_list_last_prop[OF this] obtain pre last post where
    s: "items = pre @ last # post" "?P last" "\<forall>s\<in>set post. \<not> ?P s" by blast
  from l s(1) generate_loop_append obtain mid where
    "generate_loop parse repr (last # post) subnet network_name mid = Inr defs" by blast
  then obtain service n' where
    b: "build_service parse repr last subnet network_name = Inr service"
    and n': "py_getitem last ''name'' = Inr n'"
    and r: "generate_loop parse repr post subnet network_name (setitem mid n' service) = Inr defs"
    unfolding generate_loop_Cons by blast
  from s(2) n' have e: "py_key_eq n' name" by simp
  from s(3) have o: "\<forall>s\<in>set post. \<forall>n. py_getitem s ''name'' = Inr n \<longrightarrow> \<not> py_key_eq n name"
    by blast
  from generate_loop_other[OF r o] e have "getitem defs name = Some service"
    by (simp add: getitem_setitem)
  with n(1) s(1,2) o b show ?thesis by blast
qed

lemma generate_loop_total:
  "\<forall>svc\<in>set items. \<exists>service name. build_service parse repr svc subnet network_name = Inr service \<and>
      py_getitem svc ''name'' = Inr name \<and> py_hashable name \<Longrightarrow>
   \<exists>defs. generate_loop parse repr items subnet network_name acc = Inr defs"
proof (induction items arbitrary: acc)
  case Nil
  then show ?case by simp
next
  case (Cons a rest)
  from Cons.prems obtain service name where
    b: "build_service parse repr a subnet network_name = Inr service"
       "py_getitem a ''name'' = Inr name" "py_hashable name" by auto
  from Cons.prems have "\<forall>svc\<in>set rest. \<exists>service name.
      build_service parse repr svc subnet network_name = Inr service \<and>
      py_getitem svc ''name'' = Inr name \<and> py_hashable name" by simp
  from Cons.IH[OF this] obtain defs where
    "generate_loop parse repr rest subnet network_name (setitem acc name service) = Inr defs" by blast
  with b show ?case unfolding generate_loop_Cons by blast
qed

lemma generate_services:
  assumes "generate parse repr config subnet lab_id = Inr compose"
  shows "\<exists>services items.
           dict_getitem config ''services'' = Inr services \<and> py_iter services = Inr items \<and>
           (\<forall>kv\<in>set (compose_services compose). \<exists>svc name. svc \<in> set items \<and>
              build_service parse repr svc subnet (''labforge-'' @ lab_id) = Inr (snd kv) \<and>
              py_getitem svc ''name'' = Inr name \<and> py_key_eq (fst kv) name) \<and>
           (\<forall>svc\<in>set items. \<exists>name pre last post service.
              py_getitem svc ''name'' = Inr name \<and> items = pre @ last # post \<and>
              (\<exists>n. py_getitem last ''name'' = Inr n \<and> py_key_eq n name) \<and>
              (\<forall>s\<in>set post. \<forall>n. py_getitem s ''name'' = Inr n \<longrightarrow> \<not> py_key_eq n name) \<and>
              build_service parse repr last subnet (''labforge-'' @ lab_id) = Inr service \<and>
              getitem (compose_services compose) name = Some service)"
proof -
  from assms obtain gateway services items defs where
    s: "dict_getitem config ''services'' = Inr services" "py_iter services = Inr items"
    and l: "generate_loop parse repr items subnet (''labforge-'' @ lab_id) [] = Inr defs"
    and c: "compose_services compose = defs"
    by (auto simp: generate_def Let_def bnd_eq_Inr)
  have 1: "\<forall>kv\<in>set defs. \<exists>svc name. svc \<in> set items \<and>
              build_service parse repr svc subnet (''labforge-'' @ lab_id) = Inr (snd kv) \<and>
              py_getitem svc ''name'' = Inr name \<and> py_key_eq (fst kv) name"
    using generate_loop_defs[OF l] by auto
  have 2: "\<forall>svc\<in>set items. \<exists>name pre last post service.
              py_getitem svc ''name'' = Inr name \<and> items = pre @ last # post \<and>
              (\<exists>n. py_getitem last ''name'' = Inr n \<and> py_key_eq n name) \<and>
              (\<forall>s\<in>set post. \<forall>n. py_getitem s ''name'' = Inr n \<longrightarrow> \<not> py_key_eq n name) \<and>
              build_service parse repr last subnet (''labforge-'' @ lab_id) = Inr service \<and>
              getitem defs name = Some service"
    using generate_loop_last[OF l] by blast
  from s 1 2 show ?thesis unfolding c by blast
qed

lemma generate_total:
  assumes "gateway_ip parse subnet = Inr gateway"
    and "dict_getitem config ''services'' = Inr services" and "py_iter services = Inr items"
    and "\<forall>svc\<in>set items. \<exists>service name.
           build_service parse repr svc subnet (''labforge-'' @ lab_id) = Inr service \<and>
           py_getitem svc ''name'' = Inr name \<and> py_hashable name"
  shows "\<exists>compose. generate parse repr config subnet lab_id = Inr compose"
proof -
  from generate_loop_total[OF assms(4)] obtain defs where
    "generate_loop parse repr items subnet (''labforge-'' @ lab_id) [] = Inr defs" by blast
  with assms(1-3) show ?thesis by (simp add: generate_def Let_def)
qed


lemma generate_manifest:
  assumes "generate parse repr config subnet lab_id = Inr compose"
  shows "\<exists>services items.
           dict_getitem config ''services'' = Inr services \<and> py_iter services = Inr items \<and>
           (\<forall>kv\<in>set (compose_services compose). \<exists>svc name. svc \<in> set items \<and>
              build_service parse repr svc subnet (''labforge-'' @ lab_id) = Inr (snd kv) \<and>
              py_getitem svc ''name'' = Inr name \<and> py_key_eq (fst kv) name) \<and>
           (\<forall>svc\<in>set items. \<exists>name pre last post service.
              py_getitem svc ''name'' = Inr name \<and> items = pre @ YDict last # post \<and>
              (\<exists>n. map_of last ''name'' = Some n \<and> py_key_eq n name) \<and>
              (\<forall>s\<in>set post. \<forall>n. py_getitem s ''name'' = Inr n \<longrightarrow> \<not> py_key_eq n name) \<and>
              build_service parse repr (YDict last) subnet (''labforge-'' @ lab_id) = Inr service \<and>
              getitem (compose_services compose) name = Some service \<and>
              (map_of last ''network_mode'' \<noteq> None \<longrightarrow>
                 map_of service ''network_mode'' = map_of last ''network_mode'' \<and>
                 map_of service ''networks'' = None) \<and>
              (is_windows_docker last \<longrightarrow>
                 map_of service ''cap_add'' = Some (YList [YStr ''NET_ADMIN''])))"
proof -
  from generate_services[OF assms] obtain services items where
    s: "dict_getitem config ''services'' = Inr services" "py_iter services = Inr items"
    and 1: "\<forall>kv\<in>set (compose_services compose). \<exists>svc name. svc \<in> set items \<and>
              build_service parse repr svc subnet (''labforge-'' @ lab_id) = Inr (snd kv) \<and>
              py_getitem svc ''name'' = Inr name \<and> py_key_eq (fst kv) name"
    and 2: "\<forall>svc\<in>set items. \<exists>name pre last post service.
              py_getitem svc ''name'' = Inr name \<and> items = pre @ last # post \<and>
              (\<exists>n. py_getitem last ''name'' = Inr n \<and> py_key_eq n name) \<and>
              (\<forall>s\<in>set post. \<forall>n. py_getitem s ''name'' = Inr n \<longrightarrow> \<not> py_key_eq n name) \<and>
              build_service parse repr last subnet (''labforge-'' @ lab_id) = Inr service \<and>
              getitem (compose_services compose) name = Some service"
    by blast
  have 3: "\<exists>name pre last post service.
              py_getitem svc ''name'' = Inr name \<and> items = pre @ YDict last # post \<and>
              (\<exists>n. map_of last ''name'' = Some n \<and> py_key_eq n name) \<and>
              (\<forall>s\<in>set post. \<forall>n. py_getitem s ''name'' = Inr n \<longrightarrow> \<not> py_key_eq n name) \<and>
              build_service parse repr (YDict last) subnet (''labforge-'' @ lab_id) = Inr service \<and>
              getitem (compose_services compose) name = Some service \<and>
              (map_of last ''network_mode'' \<noteq> None \<longrightarrow>
                 map_of service ''network_mode'' = map_of last ''network_mode'' \<and>
                 map_of service ''networks'' = None) \<and>
              (is_windows_docker last \<longrightarrow>
                 map_of service ''cap_add'' = Some (YList [YStr ''NET_ADMIN'']))"
    if "svc \<in> set items" for svc
  proof -
    from 2 that obtain name pre l post service n where
      a: "py_getitem svc ''name'' = Inr name" "items = pre @ l # post"
         "py_getitem l ''name'' = Inr n" "py_key_eq n name"
         "\<forall>s\<in>set post. \<forall>n. py_getitem s ''name'' = Inr n \<longrightarrow> \<not> py_key_eq n name"
         "build_service parse repr l subnet (''labforge-'' @ lab_id) = Inr service"
         "getitem (compose_services compose) name = Some service"
      by blast
    from a(6) obtain last where l: "l = YDict last" by (cases l) simp_all
    from a(3) have n: "map_of last ''name'' = Some n"
      by (simp add: l dict_getitem_def split: option.splits)
    note k = build_service_keys[OF a(6)[unfolded l]]
    from k have "map_of last ''network_mode'' \<noteq> None \<longrightarrow>
                 map_of service ''network_mode'' = map_of last ''network_mode'' \<and>
                 map_of service ''networks'' = None"
      and "is_windows_docker last \<longrightarrow>
                 map_of service ''cap_add'' = Some (YList [YStr ''NET_ADMIN''])"
      by simp_all
    with a(1,2,4,5,6,7) n show ?thesis unfolding l by blast
  qed
  from s 1 3 show ?thesis by blast
qed


text \<open>
  Claim C4. In the definition that \<open>build_service\<close> returns for a service: when the service
  declares \<^verbatim>\<open>network_mode\<close>, the definition carries that \<^verbatim>\<open>network_mode\<close> and has no
  \<^verbatim>\<open>networks\<close> entry; when it declares none, the definition has no \<^verbatim>\<open>network_mode\<close> and its
  \<^verbatim>\<open>networks\<close> entry is the single attachment to the lab's network at the computed address.
  For the platform \<^verbatim>\<open>windows-docker\<close> the \<^verbatim>\<open>cap_add\<close> of the definition is exactly
  \<^verbatim>\<open>["NET_ADMIN"]\<close>, whatever the service declares; for any other platform it is the
  service's own.

  In a generated manifest, every definition in \<^verbatim>\<open>services\<close> is the result of \<open>build_service\<close>
  for a declared service whose name equals its key, on the lab's network. Conversely every
  declared service is in the manifest: under its name the manifest holds the result of
  \<open>build_service\<close> for the last declared service of that name (the service itself when
  names are not repeated), and that definition has \<^verbatim>\<open>network_mode\<close> and no \<^verbatim>\<open>networks\<close>
  when that service declares \<^verbatim>\<open>network_mode\<close>, and the \<^verbatim>\<open>cap_add\<close> \<^verbatim>\<open>["NET_ADMIN"]\<close> when its
  platform is \<^verbatim>\<open>windows-docker\<close>.

  And both do return: \<open>build_service\<close> whenever the service has an \<^verbatim>\<open>image\<close>, a \<^verbatim>\<open>name\<close> and
  an \<^verbatim>\<open>ip_offset\<close>, the address computes and the resources, if any, are read; \<open>generate\<close>
  whenever the gateway computes, the services can be iterated, and \<open>build_service\<close> returns
  for each of them, with a name that can key a dict.
\<close>

theorem manifest_network_mode_and_cap_add:
  "(build_service parse repr (YDict svc) subnet network_name = Inr service \<longrightarrow>
      (map_of svc ''network_mode'' \<noteq> None \<longrightarrow>
         map_of service ''network_mode'' = map_of svc ''network_mode'' \<and>
         map_of service ''networks'' = None) \<and>
      (map_of svc ''network_mode'' = None \<longrightarrow>
         map_of service ''network_mode'' = None \<and>
         (\<exists>ip. map_of service ''networks'' =
                 Some (YDict [(network_name, YDict [(''ipv4_address'', YStr ip)])]))) \<and>
      (is_windows_docker svc \<longrightarrow> map_of service ''cap_add'' = Some (YList [YStr ''NET_ADMIN''])) \<and>
      (\<not> is_windows_docker svc \<longrightarrow> map_of service ''cap_add'' = map_of svc ''cap_add'')) \<and>
   (generate parse repr config subnet lab_id = Inr compose \<longrightarrow>
      (\<exists>services items.
         dict_getitem config ''services'' = Inr services \<and> py_iter services = Inr items \<and>
         (\<forall>kv\<in>set (compose_services compose). \<exists>svc name. svc \<in> set items \<and>
            build_service parse repr svc subnet (''labforge-'' @ lab_id) = Inr (snd kv) \<and>
            py_getitem svc ''name'' = Inr name \<and> py_key_eq (fst kv) name) \<and>
         (\<forall>svc\<in>set items. \<exists>name pre last post service.
            py_getitem svc ''name'' = Inr name \<and> items = pre @ YDict last # post \<and>
            (\<exists>n. map_of last ''name'' = Some n \<and> py_key_eq n name) \<and>
            (\<forall>s\<in>set post. \<forall>n. py_getitem s ''name'' = Inr n \<longrightarrow> \<not> py_key_eq n name) \<and>
            build_service parse repr (YDict last) subnet (''labforge-'' @ lab_id) = Inr service \<and>
            getitem (compose_services compose) name = Some service \<and>
            (map_of last ''network_mode'' \<noteq> None \<longrightarrow>
               map_of service ''network_mode'' = map_of last ''network_mode'' \<and>
               map_of service ''networks'' = None) \<and>
            (is_windows_docker last \<longrightarrow>
               map_of service ''cap_add'' = Some (YList [YStr ''NET_ADMIN'']))))) \<and>
   (dict_getitem svc ''image'' = Inr img \<and> dict_getitem svc ''name'' = Inr nm \<and>
    dict_getitem svc ''ip_offset'' = Inr offset \<and>
    compute_ip parse subnet offset = Inr ip \<and> build_deploy repr svc = Inr deploy \<longrightarrow>
      (\<exists>service. build_service parse repr (YDict svc) subnet network_name = Inr service)) \<and>
   (gateway_ip parse subnet = Inr gateway \<and>
    dict_getitem config ''services'' = Inr declared \<and> py_iter declared = Inr svcs \<and>
    (\<forall>svc\<in>set svcs. \<exists>service name.
       build_service parse repr svc subnet (''labforge-'' @ lab_id) = Inr service \<and>
       py_getitem svc ''name'' = Inr name \<and> py_hashable name) \<longrightarrow>
      (\<exists>compose. generate parse repr config subnet lab_id = Inr compose))"
  apply (rule conjI)
   apply (rule impI)
   apply (erule build_service_keys)
  apply (rule conjI)
   apply (rule impI)
   apply (erule generate_manifest)
  apply (rule conjI)
   apply (simp add: Let_def)
  apply (rule impI)
  apply (elim conjE)
  apply (erule (3) generate_total)
  done

theorem manifest_network_mode_and_cap_add_witness:
  "generate IPv4Network_of demo_repr windows_config (YStr ''172.30.1.0/24'') ''win-a1b2c3d4'' =
     Inr \<lparr>compose_version = YStr ''3.8'',
          compose_services =
            [(YStr ''dc'',
              [(''image'', YStr ''dockurr/windows''), (''container_name'', YStr ''dc''),
               (''devices'', YList [YStr ''/dev/kvm'']), (''cap_add'', YList [YStr ''NET_ADMIN'']),
               (''stop_grace_period'', YStr ''120s''), (''network_mode'', YStr ''host'')]),
             (YStr ''web'',
              [(''image'', YStr ''httpd''), (''container_name'', YStr ''web''),
               (''networks'', YDict [(''labforge-win-a1b2c3d4'',
                  YDict [(''ipv4_address'', YStr ''172.30.1.30'')])]),
               (''cap_add'', YList [YStr ''NET_RAW''])])],
          compose_networks =
            YDict [(''labforge-win-a1b2c3d4'', YDict
              [(''driver'', YStr ''bridge''),
               (''ipam'', YDict [(''config'', YList
                  [YDict [(''subnet'', YStr ''172.30.1.0/24''),
                          (''gateway'', YStr ''172.30.1.1'')]])])])],
          compose_volumes = None\<rparr> \<and>
   (\<exists>service. getitem
      [(YStr ''dc'',
        [(''image'', YStr ''dockurr/windows''), (''container_name'', YStr ''dc''),
         (''devices'', YList [YStr ''/dev/kvm'']), (''cap_add'', YList [YStr ''NET_ADMIN'']),
         (''stop_grace_period'', YStr ''120s''), (''network_mode'', YStr ''host'')]),
       (YStr ''web'',
        [(''image'', YStr ''httpd''), (''container_name'', YStr ''web''),
         (''networks'', YDict [(''labforge-win-a1b2c3d4'',
            YDict [(''ipv4_address'', YStr ''172.30.1.30'')])]),
         (''cap_add'', YList [YStr ''NET_RAW''])])] (YStr ''dc'') = Some service \<and>
      map_of service ''network_mode'' = Some (YStr ''host'') \<and>
      map_of service ''networks'' = None \<and>
      map_of service ''cap_add'' = Some (YList [YStr ''NET_ADMIN'']))"
proof -
  let ?dc = "[(''image'', YStr ''dockurr/windows''), (''container_name'', YStr ''dc''),
               (''devices'', YList [YStr ''/dev/kvm'']), (''cap_add'', YList [YStr ''NET_ADMIN'']),
               (''stop_grace_period'', YStr ''120s''), (''network_mode'', YStr ''host'')]"
  let ?defs = "[(YStr ''dc'', ?dc),
             (YStr ''web'',
              [(''image'', YStr ''httpd''), (''container_name'', YStr ''web''),
               (''networks'', YDict [(''labforge-win-a1b2c3d4'',
                  YDict [(''ipv4_address'', YStr ''172.30.1.30'')])]),
               (''cap_add'', YList [YStr ''NET_RAW''])])]"
  let ?c = "\<lparr>compose_version = YStr ''3.8'', compose_services = ?defs,
          compose_networks =
            YDict [(''labforge-win-a1b2c3d4'', YDict
              [(''driver'', YStr ''bridge''),
               (''ipam'', YDict [(''config'', YList
                  [YDict [(''subnet'', YStr ''172.30.1.0/24''),
                          (''gateway'', YStr ''172.30.1.1'')]])])])],
          compose_volumes = None\<rparr>"
  let ?svc = "[(''name'', YStr ''dc''), (''image'', YStr ''dockurr/windows''),
                 (''ip_offset'', YInt 10), (''platform'', YStr ''windows-docker''),
                 (''cap_add'', YList [YStr ''SYS_ADMIN'']), (''network_mode'', YStr ''host'')]"
  have g: "generate IPv4Network_of demo_repr windows_config (YStr ''172.30.1.0/24'') ''win-a1b2c3d4'' =
      Inr ?c"
    by code_simp
  note t = manifest_network_mode_and_cap_add[where parse=IPv4Network_of and repr=demo_repr
      and config=windows_config and subnet="YStr ''172.30.1.0/24''" and lab_id="''win-a1b2c3d4''"
      and compose="?c"]
  from t[THEN conjunct2, THEN conjunct1, THEN mp, OF g] obtain services items where
    s: "dict_getitem windows_config ''services'' = Inr services" "py_iter services = Inr items"
    and a: "\<forall>svc\<in>set items. \<exists>name pre last post service.
            py_getitem svc ''name'' = Inr name \<and> items = pre @ YDict last # post \<and>
            (\<exists>n. map_of last ''name'' = Some n \<and> py_key_eq n name) \<and>
            (\<forall>s\<in>set post. \<forall>n. py_getitem s ''name'' = Inr n \<longrightarrow> \<not> py_key_eq n name) \<and>
            build_service IPv4Network_of demo_repr (YDict last) (YStr ''172.30.1.0/24'')
              (''labforge-'' @ ''win-a1b2c3d4'') = Inr service \<and>
            getitem (compose_services ?c) name = Some service \<and>
            (map_of last ''network_mode'' \<noteq> None \<longrightarrow>
               map_of service ''network_mode'' = map_of last ''network_mode'' \<and>
               map_of service ''networks'' = None) \<and>
            (is_windows_docker last \<longrightarrow>
               map_of service ''cap_add'' = Some (YList [YStr ''NET_ADMIN'']))"
    by blast
  from s have "YDict ?svc \<in> set items"
    by (auto simp: windows_config_def dict_getitem_def)
  with a obtain name service where
    "py_getitem (YDict ?svc) ''name'' = Inr name" "getitem (compose_services ?c) name = Some service"
    by blast
  then have d: "getitem ?defs (YStr ''dc'') = Some service" by simp
  then have "service = ?dc" by simp
  then have "map_of service ''network_mode'' = Some (YStr ''host'')"
    "map_of service ''networks'' = None"
    "map_of service ''cap_add'' = Some (YList [YStr ''NET_ADMIN''])"
    by simp_all
  with g d show ?thesis by blast
qed

section \<open>Properties of the interpolation\<close>

lemma concat_map_image:
  "(\<And>x. x \<in> set xs \<Longrightarrow> g x = map h (k x)) \<Longrightarrow> concat (map g xs) = map h (concat (map k xs))"
  by (induction xs) auto

lemma strings_of_replace: "strings_of (replace f v) = map (re_sub f) (strings_of v)"
proof (induction v)
  case (YList xs)
  have "concat (map (\<lambda>x. strings_of (replace f x)) xs) = map (re_sub f) (concat (map strings_of xs))"
    by (rule concat_map_image) (rule YList.IH)
  then show ?case by (simp add: comp_def)
next
  case (YDict d)
  have "concat (map (\<lambda>kv. strings_of (replace f (snd kv))) d) =
        map (re_sub f) (concat (map (\<lambda>kv. strings_of (snd kv)) d))"
  proof (rule concat_map_image)
    fix kv assume m: "kv \<in> set d"
    have "snd kv \<in> Basic_BNFs.snds kv" by (cases kv) simp
    with m show "strings_of (replace f (snd kv)) = map (re_sub f) (strings_of (snd kv))"
      by (rule YDict.IH)
  qed
  then show ?case by (simp add: comp_def)
qed auto

lemma not_word_brace: "\<not> is_word_char CHR ''}''"
  by (simp add: is_word_char_def)

lemma match_placeholder_key:
  assumes "key \<noteq> []" "list_all is_word_char key"
  shows "match_placeholder (''${'' @ key @ ''}'' @ rest) = Some (key, rest)"
proof -
  have a: "\<forall>c\<in>set key. is_word_char c" using assms(2) by (simp add: list_all_iff)
  have d: "dropWhile is_word_char (key @ CHR ''}'' # rest) = CHR ''}'' # rest"
    using a not_word_brace by (simp add: dropWhile_append3)
  have t: "takeWhile is_word_char (key @ CHR ''}'' # rest) = key"
    using a not_word_brace by (simp add: takeWhile_tail)
  show ?thesis using d t assms(1) by simp
qed

lemma re_sub_placeholder:
  assumes "key \<noteq> []" "list_all is_word_char key"
  shows "re_sub f (''${'' @ key @ ''}'' @ rest) = f key @ re_sub f rest"
proof -
  have "re_sub f (CHR ''$'' # (''{'' @ key @ ''}'' @ rest)) =
          (case match_placeholder (CHR ''$'' # (''{'' @ key @ ''}'' @ rest)) of
             Some (key, rest) \<Rightarrow> f key @ re_sub f rest
           | None \<Rightarrow> CHR ''$'' # re_sub f (''{'' @ key @ ''}'' @ rest))"
    by (rule re_sub.simps(2))
  moreover have "match_placeholder (CHR ''$'' # (''{'' @ key @ ''}'' @ rest)) = Some (key, rest)"
    using match_placeholder_key[OF assms, of rest] by simp
  ultimately show ?thesis by simp
qed

lemma interpolate_strings:
  assumes "interpolate_variables repr env config = Inr config'"
  shows "\<exists>lookup. dict_get config ''settings'' (YDict []) = YDict lookup \<and>
           map fst config' = map fst config \<and>
           strings_of (YDict config') =
             map (re_sub (sub repr lookup env)) (strings_of (YDict config))"
proof -
  from assms obtain lookup where l: "dict_get config ''settings'' (YDict []) = YDict lookup"
    and c: "config' = map (\<lambda>kv. (fst kv, replace (sub repr lookup env) (snd kv))) config"
    by (auto simp: interpolate_variables_def split: yaml.splits)
  have "YDict config' = replace (sub repr lookup env) (YDict config)" using c by simp
  then have "strings_of (YDict config') =
             map (re_sub (sub repr lookup env)) (strings_of (YDict config))"
    by (simp only: strings_of_replace)
  moreover have "map fst config' = map fst config" using c by (simp add: comp_def)
  ultimately show ?thesis using l by blast
qed

text \<open>
  Claim C8. \<open>interpolate_variables\<close> keeps the keys of the configuration and turns every
  string value of it, at any depth of dicts and lists (\<open>strings_of\<close> lists them all), into
  its \<open>re_sub\<close>; it returns whenever \<^verbatim>\<open>settings\<close> is absent or a dict. \<open>re_sub\<close> replaces a
  placeholder \<^verbatim>\<open>${key}\<close> (a non-empty key of word characters) by the substitution of its
  key and goes on behind it, and copies a character where no placeholder starts. The
  substitution of a key is the text of its entry in the settings if there is one, else
  its value in the environment if set, else the placeholder itself, verbatim. With
  \<^verbatim>\<open>settings: {password: "x1"}\<close> the nested value \<^verbatim>\<open>"${password}"\<close> becomes \<^verbatim>\<open>"x1"\<close>; with no
  setting and an empty environment it stays \<^verbatim>\<open>"${password}"\<close>.
\<close>

theorem interpolate_replaces_placeholders:
  "(interpolate_variables repr env config = Inr config' \<longrightarrow>
      (\<exists>lookup. dict_get config ''settings'' (YDict []) = YDict lookup \<and>
         map fst config' = map fst config \<and>
         strings_of (YDict config') =
           map (re_sub (sub repr lookup env)) (strings_of (YDict config)))) \<and>
   (dict_get config ''settings'' (YDict []) = YDict lookup \<longrightarrow>
      (\<exists>config'. interpolate_variables repr env config = Inr config')) \<and>
   (key \<noteq> [] \<and> list_all is_word_char key \<longrightarrow>
      re_sub f (''${'' @ key @ ''}'' @ rest) = f key @ re_sub f rest) \<and>
   (match_placeholder (c # cs) = None \<longrightarrow> re_sub f (c # cs) = c # re_sub f cs) \<and>
   re_sub f [] = [] \<and>
   sub repr lookup env key =
     (case map_of lookup key of
        Some v \<Rightarrow> py_str repr v
      | None \<Rightarrow> (case env key of Some env_val \<Rightarrow> env_val | None \<Rightarrow> ''${'' @ key @ ''}'')) \<and>
   py_str repr (YStr s) = s \<and>
   interpolate_variables repr Map.empty
     [(''settings'', YDict [(''password'', YStr ''x1'')]),
      (''services'', YList [YDict [(''environment'', YDict [(''PW'', YStr ''${password}'')])]])] =
   Inr [(''settings'', YDict [(''password'', YStr ''x1'')]),
        (''services'', YList [YDict [(''environment'', YDict [(''PW'', YStr ''x1'')])]])] \<and>
   interpolate_variables repr Map.empty
     [(''services'', YList [YDict [(''environment'', YDict [(''PW'', YStr ''${password}'')])]])] =
   Inr [(''services'', YList [YDict [(''environment'', YDict [(''PW'', YStr ''${password}'')])]])]"
proof -
  have 1: "interpolate_variables repr env config = Inr config' \<longrightarrow>
      (\<exists>lookup. dict_get config ''settings'' (YDict []) = YDict lookup \<and>
         map fst config' = map fst config \<and>
         strings_of (YDict config') =
           map (re_sub (sub repr lookup env)) (strings_of (YDict config)))"
    by (rule impI) (erule interpolate_strings)
  have 2: "dict_get config ''settings'' (YDict []) = YDict lookup \<longrightarrow>
      (\<exists>config'. interpolate_variables repr env config = Inr config')"
    by (simp add: interpolate_variables_def)
  have 3: "key \<noteq> [] \<and> list_all is_word_char key \<longrightarrow>
      re_sub f (''${'' @ key @ ''}'' @ rest) = f key @ re_sub f rest"
    using re_sub_placeholder by blast
  have 4: "match_placeholder (c # cs) = None \<longrightarrow> re_sub f (c # cs) = c # re_sub f cs"
    by simp
  have 5: "sub repr lookup env key =
     (case map_of lookup key of
        Some v \<Rightarrow> py_str repr v
      | None \<Rightarrow> (case env key of Some env_val \<Rightarrow> env_val | None \<Rightarrow> ''${'' @ key @ ''}''))"
    by (simp add: sub_def)
  have p: "re_sub g ''${password}'' = g ''password''" for g
    using re_sub_placeholder[of "''password''" g "[]"]
    by (simp add: is_word_char_def)
  have 6: "interpolate_variables repr Map.empty
     [(''settings'', YDict [(''password'', YStr ''x1'')]),
      (''services'', YList [YDict [(''environment'', YDict [(''PW'', YStr ''${password}'')])]])] =
   Inr [(''settings'', YDict [(''password'', YStr ''x1'')]),
        (''services'', YList [YDict [(''environment'', YDict [(''PW'', YStr ''x1'')])]])]"
    by (simp add: interpolate_variables_def dict_get_def p sub_def is_word_char_def)
  have 7: "interpolate_variables repr Map.empty
     [(''services'', YList [YDict [(''environment'', YDict [(''PW'', YStr ''${password}'')])]])] =
   Inr [(''services'', YList [YDict [(''environment'', YDict [(''PW'', YStr ''${password}'')])]])]"
    by (simp add: interpolate_variables_def dict_get_def p sub_def is_word_char_def)
  from 1 2 3 4 5 6 7 show ?thesis by simp
qed

theorem interpolate_replaces_placeholders_witness:
  "re_sub (sub demo_repr [(''user'', YStr ''bob''), (''port'', YInt 8080)] demo_environ)
     (''${user}'' @ '':${port}@${HOME}/${nope}'') = ''bob:8080@/root/${nope}''"
proof -
  let ?f = "sub demo_repr [(''user'', YStr ''bob''), (''port'', YInt 8080)] demo_environ"
  have k: "''user'' \<noteq> [] \<and> list_all is_word_char ''user''" by (simp add: is_word_char_def)
  from interpolate_replaces_placeholders[where key = "''user''" and f = ?f and rest = "'':${port}@${HOME}/${nope}''"] k
  have "re_sub ?f (''${'' @ ''user'' @ ''}'' @ '':${port}@${HOME}/${nope}'') =
        ?f ''user'' @ re_sub ?f '':${port}@${HOME}/${nope}''"
    by blast
  moreover have "?f ''user'' = ''bob''" by (simp add: sub_def)
  moreover have "re_sub ?f '':${port}@${HOME}/${nope}'' = '':8080@/root/${nope}''"
    by (simp add: is_word_char_def sub_def demo_environ_def)
  ultimately show ?thesis by simp
qed

section \<open>Properties of the state store\<close>

lemma is_match_iff:
  "is_match partial_id ne \<longleftrightarrow>
     (\<exists>d. snd ne = Directory d \<and> prefix partial_id (fst ne) \<and> state_file d \<noteq> None)"
  by (cases "(partial_id, ne)" rule: is_match.cases) auto

text \<open>
  Claim C9, over the directories that hold a record. The candidates of \<open>resolve_id\<close> are
  the entries of the data directory that are directories, whose name starts with the
  partial id, and that contain a \<^verbatim>\<open>state.yml\<close>. With no data directory it fails with
  "No labs found"; with no candidate it fails with "No lab found matching"; with exactly
  one it returns that directory's name, the full lab id; with more than one it fails
  with "Ambiguous lab ID", naming them.
\<close>

theorem resolve_id_prefix_match:
  "(data_dir w = None \<longrightarrow> resolve_id partial_id w = Inl (StateError NoLabsFound)) \<and>
   (data_dir w = Some es \<longrightarrow>
      resolve_id partial_id w =
        (case filter (is_match partial_id) es of
           [] \<Rightarrow> Inl (StateError (NoLabMatching partial_id))
         | [m] \<Rightarrow> Inr (fst m)
         | m # m' # ms \<Rightarrow> Inl (StateError (AmbiguousId partial_id (map fst (m # m' # ms)))))) \<and>
   (is_match partial_id (name, e) \<longleftrightarrow>
      (\<exists>d. e = Directory d \<and> prefix partial_id name \<and> state_file d \<noteq> None))"
proof -
  have 1: "data_dir w = None \<longrightarrow> resolve_id partial_id w = Inl (StateError NoLabsFound)"
    by (simp add: resolve_id_def)
  have 2: "data_dir w = Some es \<longrightarrow>
      resolve_id partial_id w =
        (case filter (is_match partial_id) es of
           [] \<Rightarrow> Inl (StateError (NoLabMatching partial_id))
         | [m] \<Rightarrow> Inr (fst m)
         | m # m' # ms \<Rightarrow> Inl (StateError (AmbiguousId partial_id (map fst (m # m' # ms)))))"
    by (cases "filter (is_match partial_id) es")
       (auto simp: resolve_id_def Let_def split: list.splits)
  have 3: "is_match partial_id (name, e) \<longleftrightarrow>
      (\<exists>d. e = Directory d \<and> prefix partial_id name \<and> state_file d \<noteq> None)"
    by (simp add: is_match_iff)
  from 1 2 3 show ?thesis by blast
qed

theorem resolve_id_prefix_match_witness:
  "resolve_id ''abc''
     \<lparr>data_dir = Some [(''abc-111'', demo_record ''abc-111'' ''running'' ''172.30.1.0/24''),
                       (''abc-222'', demo_record ''abc-222'' ''running'' ''172.30.2.0/24'')],
      console = [], ticks = 0\<rparr> =
     Inl (StateError (AmbiguousId ''abc'' [''abc-111'', ''abc-222''])) \<and>
   resolve_id ''abc-1''
     \<lparr>data_dir = Some [(''abc-111'', demo_record ''abc-111'' ''running'' ''172.30.1.0/24''),
                       (''abc-222'', demo_record ''abc-222'' ''running'' ''172.30.2.0/24'')],
      console = [], ticks = 0\<rparr> = Inr ''abc-111'' \<and>
   resolve_id ''xyz''
     \<lparr>data_dir = Some [(''abc-111'', demo_record ''abc-111'' ''running'' ''172.30.1.0/24''),
                       (''abc-222'', demo_record ''abc-222'' ''running'' ''172.30.2.0/24'')],
      console = [], ticks = 0\<rparr> = Inl (StateError (NoLabMatching ''xyz''))"
proof -
  let ?es = "[(''abc-111'', demo_record ''abc-111'' ''running'' ''172.30.1.0/24''),
              (''abc-222'', demo_record ''abc-222'' ''running'' ''172.30.2.0/24'')]"
  let ?w = "\<lparr>data_dir = Some ?es, console = [], ticks = 0\<rparr>"
  have d: "data_dir ?w = Some ?es" by simp
  have r: "resolve_id p ?w =
        (case filter (is_match p) ?es of
           [] \<Rightarrow> Inl (StateError (NoLabMatching p))
         | [m] \<Rightarrow> Inr (fst m)
         | m # m' # ms \<Rightarrow> Inl (StateError (AmbiguousId p (map fst (m # m' # ms)))))" for p
    using resolve_id_prefix_match[of ?w p ?es] d by blast
  have "resolve_id ''abc'' ?w = Inl (StateError (AmbiguousId ''abc'' [''abc-111'', ''abc-222'']))"
    unfolding r by (simp add: demo_record_def)
  moreover have "resolve_id ''abc-1'' ?w = Inr ''abc-111''"
    unfolding r by (simp add: demo_record_def)
  moreover have "resolve_id ''xyz'' ?w = Inl (StateError (NoLabMatching ''xyz''))"
    unfolding r by (simp add: demo_record_def)
  ultimately show ?thesis by blast
qed

text \<open>
  Counting every directory whose name starts with the partial id is not what the code
  does: of two such directories, one without \<^verbatim>\<open>state.yml\<close>, the other is returned and no
  ambiguity is reported.
\<close>

theorem resolve_id_directory_without_record_counterexample:
  "prefix ''abc'' ''abc-111'' \<and> prefix ''abc'' ''abc-222'' \<and>
   resolve_id ''abc''
     \<lparr>data_dir = Some [(''abc-111'', demo_record ''abc-111'' ''running'' ''172.30.1.0/24''),
                       (''abc-222'', Directory \<lparr>state_file = None, compose_file = None\<rparr>)],
      console = [], ticks = 0\<rparr> = Inr ''abc-111''"
  by (simp add: resolve_id_def demo_record_def)

section \<open>Properties of the lab record\<close>

lemma validate_service_dict:
  assumes "validate_service i (YDict d) = Inr ()"
  shows "map_of d ''name'' \<noteq> None \<and> map_of d ''image'' \<noteq> None \<and> map_of d ''ip_offset'' \<noteq> None"
  using assms by (auto simp: validate_service_def bnd_eq_Inr split: if_splits option.splits)

lemma validate_services_dict:
  "validate_services i svcs = Inr () \<Longrightarrow> YDict d \<in> set svcs \<Longrightarrow>
   map_of d ''name'' \<noteq> None \<and> map_of d ''image'' \<noteq> None \<and> map_of d ''ip_offset'' \<noteq> None"
proof (induction svcs arbitrary: i)
  case Nil
  then show ?case by simp
next
  case (Cons svc rest)
  from Cons.prems(1) have a: "validate_service i svc = Inr ()"
    and b: "validate_services (Suc i) rest = Inr ()"
    by (auto simp: bnd_eq_Inr)
  from Cons.prems(2) have "YDict d = svc \<or> YDict d \<in> set rest" by auto
  then show ?case
  proof
    assume "YDict d = svc" with a show ?thesis using validate_service_dict by blast
  next
    assume "YDict d \<in> set rest" with b show ?thesis by (rule Cons.IH)
  qed
qed

lemma svc_info_dict:
  assumes "map_of d ''name'' = Some n" "map_of d ''image'' = Some im" "map_of d ''ip_offset'' = Some off"
  shows "\<exists>info. svc_info (YDict d) = Inr (YDict info) \<and>
           map_of info ''name'' = Some n \<and> map_of info ''image'' = Some im \<and>
           map_of info ''ip_offset'' = Some off \<and>
           map_of info ''platform'' = Some (dict_get d ''platform'' (YStr ''linux'')) \<and>
           map_of info ''access'' = map_of d ''access'' \<and>
           map_of info ''ports'' = map_of d ''ports'' \<and>
           fst ` set info \<subseteq> {''name'', ''image'', ''ip_offset'', ''platform'', ''access'', ''ports''}"
  using assms
  by (cases "map_of d ''access''"; cases "map_of d ''ports''")
     (simp_all add: svc_info_def Let_def dict_get_def)

lemma sequence_list_all2:
  "\<forall>x\<in>set xs. \<exists>y. f x = Inr y \<and> P x y \<Longrightarrow>
   \<exists>ys. sequence (map f xs) = Inr ys \<and> list_all2 P xs ys"
proof (induction xs)
  case Nil
  then show ?case by simp
next
  case (Cons x xs)
  then obtain y ys where "f x = Inr y" "P x y" "sequence (map f xs) = Inr ys" "list_all2 P xs ys"
    by auto
  then show ?case by auto
qed

lemma data_dir_now: "data_dir (snd (now h w)) = data_dir w"
  by (simp add: now_def)

lemma mkdir_directory:
  assumes "lookup_dir lab_id w \<noteq> Some RegularFile"
  shows "\<exists>w1 es d. mkdir lab_id w = Inr w1 \<and> data_dir w1 = Some es \<and>
           map_of es lab_id = Some (Directory d)"
proof (cases "lookup_dir lab_id w")
  case None
  then show ?thesis by (simp add: mkdir_def update_conv')
next
  case (Some e)
  with assms obtain d where e: "e = Directory d" by (cases e) auto
  with Some show ?thesis by (auto simp: mkdir_def lookup_dir_def split: option.splits)
qed

lemma load_write_state:
  assumes "data_dir w = Some es" "map_of es lab_id = Some (Directory d)"
  shows "load lab_id (write_state lab_id state w) = Inr (YDict state)"
  using assms by (simp add: load_def write_state_def lookup_dir_def update_conv')

text \<open>
  Claim C5, for what the record keeps of a service. For a validated template whose
  services are dicts, and a lab id that does not name a regular file of the data
  directory, \<open>create\<close> succeeds and \<open>load\<close> right after it returns the record written: its
  \<^verbatim>\<open>lab_id\<close>, \<^verbatim>\<open>subnet\<close> and \<^verbatim>\<open>template\<close> are the inputs, its status is \<^verbatim>\<open>building\<close>, and its
  service list has one entry per service of the template, in order, with the service's
  \<^verbatim>\<open>name\<close>, \<^verbatim>\<open>image\<close> and \<^verbatim>\<open>ip_offset\<close>, its \<^verbatim>\<open>platform\<close> (\<^verbatim>\<open>linux\<close> when it declares none), its
  \<^verbatim>\<open>access\<close> and \<^verbatim>\<open>ports\<close> when it declares them, and no other key.
\<close>

theorem create_load_round_trip:
  assumes v: "validate_config config = Inr ()"
    and s: "map_of config ''services'' = Some (YList svcs)" "\<forall>svc\<in>set svcs. \<exists>d. svc = YDict d"
    and f: "lookup_dir lab_id w \<noteq> Some RegularFile"
  shows "\<exists>state w' records.
           create h lab_id template config subnet w = (Inr state, w') \<and>
           load lab_id w' = Inr (YDict state) \<and>
           map_of state ''lab_id'' = Some (YStr lab_id) \<and>
           map_of state ''subnet'' = Some subnet \<and>
           map_of state ''template'' = Some (YStr template) \<and>
           map_of state ''status'' = Some (YStr ''building'') \<and>
           map_of state ''services'' = Some (YList records) \<and>
           list_all2
             (\<lambda>svc record. \<exists>d info. svc = YDict d \<and> record = YDict info \<and>
                map_of info ''name'' = map_of d ''name'' \<and>
                map_of info ''image'' = map_of d ''image'' \<and>
                map_of info ''ip_offset'' = map_of d ''ip_offset'' \<and>
                map_of info ''platform'' = Some (dict_get d ''platform'' (YStr ''linux'')) \<and>
                map_of info ''access'' = map_of d ''access'' \<and>
                map_of info ''ports'' = map_of d ''ports'' \<and>
                fst ` set info \<subseteq> {''name'', ''image'', ''ip_offset'', ''platform'', ''access'', ''ports''})
             svcs records"
proof -
  let ?P = "\<lambda>svc record. \<exists>d info. svc = YDict d \<and> record = YDict info \<and>
                map_of info ''name'' = map_of d ''name'' \<and>
                map_of info ''image'' = map_of d ''image'' \<and>
                map_of info ''ip_offset'' = map_of d ''ip_offset'' \<and>
                map_of info ''platform'' = Some (dict_get d ''platform'' (YStr ''linux'')) \<and>
                map_of info ''access'' = map_of d ''access'' \<and>
                map_of info ''ports'' = map_of d ''ports'' \<and>
                fst ` set info \<subseteq> {''name'', ''image'', ''ip_offset'', ''platform'', ''access'', ''ports''}"
  from v s(1) have vs: "validate_services 0 svcs = Inr ()"
    by (auto simp: validate_config_def split: if_splits)
  have "\<forall>svc\<in>set svcs. \<exists>record. svc_info svc = Inr record \<and> ?P svc record"
  proof
    fix svc assume m: "svc \<in> set svcs"
    with s(2) obtain d where d: "svc = YDict d" by blast
    with m vs obtain n im off where k: "map_of d ''name'' = Some n" "map_of d ''image'' = Some im"
      "map_of d ''ip_offset'' = Some off"
      using validate_services_dict by blast
    from svc_info_dict[OF k] obtain info where "svc_info (YDict d) = Inr (YDict info)"
      "map_of info ''name'' = Some n" "map_of info ''image'' = Some im"
      "map_of info ''ip_offset'' = Some off"
      "map_of info ''platform'' = Some (dict_get d ''platform'' (YStr ''linux''))"
      "map_of info ''access'' = map_of d ''access''"
      "map_of info ''ports'' = map_of d ''ports''"
      "fst ` set info \<subseteq> {''name'', ''image'', ''ip_offset'', ''platform'', ''access'', ''ports''}"
      by blast
    with d k show "\<exists>record. svc_info svc = Inr record \<and> ?P svc record" by simp
  qed
  from sequence_list_all2[where f = svc_info and P = ?P, OF this]
  obtain records where r: "sequence (map svc_info svcs) = Inr records" "list_all2 ?P svcs records"
    by blast
  from mkdir_directory[OF f] obtain w1 es d where
    m: "mkdir lab_id w = Inr w1" "data_dir w1 = Some es" "map_of es lab_id = Some (Directory d)"
    by blast
  define w3 where "w3 = snd (now h (snd (now h w1)))"
  define state where "state =
      [(''lab_id'', YStr lab_id), (''template'', YStr template),
       (''name'', dict_get config ''name'' (YStr template)),
       (''description'', dict_get config ''description'' (YStr [])),
       (''status'', YStr ''building''), (''subnet'', subnet), (''services'', YList records),
       (''created_at'', YStr (fst (now h w1))),
       (''updated_at'', YStr (fst (now h (snd (now h w1)))))]"
  have c: "create h lab_id template config subnet w = (Inr state, write_state lab_id state w3)"
    by (simp add: create_def m(1) dict_get_def s(1) r(1) Let_def case_prod_beta state_def w3_def)
  have "data_dir w3 = Some es" by (simp add: w3_def data_dir_now m(2))
  then have l: "load lab_id (write_state lab_id state w3) = Inr (YDict state)"
    using m(3) by (rule load_write_state)
  have "map_of state ''lab_id'' = Some (YStr lab_id)" "map_of state ''subnet'' = Some subnet"
    "map_of state ''template'' = Some (YStr template)"
    "map_of state ''status'' = Some (YStr ''building'')"
    "map_of state ''services'' = Some (YList records)"
    by (simp_all add: state_def)
  with c l r(2) show ?thesis by blast
qed

theorem create_load_round_trip_witness:
  "create demo_host ''mal-a1b2c3d4'' ''malware-lab'' demo_config (YStr ''172.30.1.0/24'') empty_world =
     (Inr [(''lab_id'', YStr ''mal-a1b2c3d4''), (''template'', YStr ''malware-lab''),
           (''name'', YStr ''malware-lab''), (''description'', YStr []),
           (''status'', YStr ''building''), (''subnet'', YStr ''172.30.1.0/24''),
           (''services'', YList [YDict [(''name'', YStr ''victim''), (''image'', YStr ''ubuntu:22.04''),
                                        (''ip_offset'', YInt 10), (''platform'', YStr ''linux'')]]),
           (''created_at'', YStr ''2026-01-01T00:00:00''),
           (''updated_at'', YStr ''2026-01-01T00:00:01'')],
      snd (create demo_host ''mal-a1b2c3d4'' ''malware-lab'' demo_config (YStr ''172.30.1.0/24'') empty_world)) \<and>
   load ''mal-a1b2c3d4''
     (snd (create demo_host ''mal-a1b2c3d4'' ''malware-lab'' demo_config (YStr ''172.30.1.0/24'') empty_world)) =
     Inr (YDict [(''lab_id'', YStr ''mal-a1b2c3d4''), (''template'', YStr ''malware-lab''),
           (''name'', YStr ''malware-lab''), (''description'', YStr []),
           (''status'', YStr ''building''), (''subnet'', YStr ''172.30.1.0/24''),
           (''services'', YList [YDict [(''name'', YStr ''victim''), (''image'', YStr ''ubuntu:22.04''),
                                        (''ip_offset'', YInt 10), (''platform'', YStr ''linux'')]]),
           (''created_at'', YStr ''2026-01-01T00:00:00''),
           (''updated_at'', YStr ''2026-01-01T00:00:01'')])"
proof -
  let ?c = "create demo_host ''mal-a1b2c3d4'' ''malware-lab'' demo_config (YStr ''172.30.1.0/24'') empty_world"
  let ?svcs = "[YDict [(''name'', YStr ''victim''), (''image'', YStr ''ubuntu:22.04''),
                 (''ip_offset'', YInt 10), (''hostname'', YStr ''victim-${password}'')]]"
  have v: "validate_config demo_config = Inr ()" by code_simp
  have s: "map_of demo_config ''services'' = Some (YList ?svcs)" by (simp add: demo_config_def)
  have d: "\<forall>svc\<in>set ?svcs. \<exists>d. svc = YDict d" by simp
  have f: "lookup_dir ''mal-a1b2c3d4'' empty_world \<noteq> Some RegularFile"
    by (simp add: lookup_dir_def empty_world_def)
  from create_load_round_trip[OF v s d f, of demo_host "''malware-lab''" "YStr ''172.30.1.0/24''"]
  obtain state w' where c: "?c = (Inr state, w')" and l: "load ''mal-a1b2c3d4'' w' = Inr (YDict state)"
    by blast
  have e: "fst ?c = Inr [(''lab_id'', YStr ''mal-a1b2c3d4''), (''template'', YStr ''malware-lab''),
           (''name'', YStr ''malware-lab''), (''description'', YStr []),
           (''status'', YStr ''building''), (''subnet'', YStr ''172.30.1.0/24''),
           (''services'', YList [YDict [(''name'', YStr ''victim''), (''image'', YStr ''ubuntu:22.04''),
                                        (''ip_offset'', YInt 10), (''platform'', YStr ''linux'')]]),
           (''created_at'', YStr ''2026-01-01T00:00:00''),
           (''updated_at'', YStr ''2026-01-01T00:00:01'')]"
    by code_simp
  from c e l show ?thesis by simp
qed

text \<open>
  The service list of the record is not the service list of the template: a declared
  \<^verbatim>\<open>hostname\<close> is not recorded, and the platform is filled in.
\<close>

theorem create_drops_service_fields_counterexample:
  "validate_config demo_config = Inr () \<and>
   map_of demo_config ''services'' =
     Some (YList [YDict [(''name'', YStr ''victim''), (''image'', YStr ''ubuntu:22.04''),
                         (''ip_offset'', YInt 10), (''hostname'', YStr ''victim-${password}'')]]) \<and>
   load ''mal-a1b2c3d4''
     (snd (create demo_host ''mal-a1b2c3d4'' ''malware-lab'' demo_config
             (YStr ''172.30.1.0/24'') empty_world)) =
     Inr (YDict [(''lab_id'', YStr ''mal-a1b2c3d4''), (''template'', YStr ''malware-lab''),
           (''name'', YStr ''malware-lab''), (''description'', YStr []),
           (''status'', YStr ''building''), (''subnet'', YStr ''172.30.1.0/24''),
           (''services'', YList [YDict [(''name'', YStr ''victim''), (''image'', YStr ''ubuntu:22.04''),
                                        (''ip_offset'', YInt 10), (''platform'', YStr ''linux'')]]),
           (''created_at'', YStr ''2026-01-01T00:00:00''),
           (''updated_at'', YStr ''2026-01-01T00:00:01'')]) \<and>
   YList [YDict [(''name'', YStr ''victim''), (''image'', YStr ''ubuntu:22.04''),
                 (''ip_offset'', YInt 10), (''platform'', YStr ''linux'')]] \<noteq>
   YList [YDict [(''name'', YStr ''victim''), (''image'', YStr ''ubuntu:22.04''),
                 (''ip_offset'', YInt 10), (''hostname'', YStr ''victim-${password}'')]]"
  by code_simp

section \<open>Properties of destroy\<close>

lemma wbnd_simps [simp]:
  "wbnd (Inl e, w) f = (Inl e, w)" "wbnd (Inr x, w) f = f x w"
  by (simp_all add: wbnd_def)

lemma lookup_dir_print [simp]: "lookup_dir lab_id (print m w) = lookup_dir lab_id w"
  by (simp add: lookup_dir_def print_def)

lemma data_dir_print [simp]: "data_dir (print m w) = data_dir w"
  by (simp add: print_def)

lemma console_of_print [simp]: "console (print m w) = console w @ [m]"
  by (simp add: print_def)

lemma load_print [simp]: "load lab_id (print m w) = load lab_id w"
  by (simp add: load_def)

lemma load_Inr_directory:
  assumes "load lab_id w = Inr v"
  shows "\<exists>es d. data_dir w = Some es \<and> map_of es lab_id = Some (Directory d) \<and>
           state_file d = Some (Document v)"
  using assms
  by (auto simp: load_def lookup_dir_def split: option.splits entry.splits content.splits)

lemma update_status_record:
  assumes "load lab_id w = Inr (YDict state)"
  shows "\<exists>w' es d. update_status h lab_id status w = (Inr (), w') \<and>
           console w' = console w \<and>
           data_dir w' = Some es \<and> map_of es lab_id = Some (Directory d) \<and>
           state_file d = Some (Document (YDict
             (AList.update ''updated_at'' (YStr (clock h (ticks w)))
               (AList.update ''status'' (YStr status) state))))"
proof -
  from load_Inr_directory[OF assms] obtain es d where
    d: "data_dir w = Some es" "map_of es lab_id = Some (Directory d)" by blast
  show ?thesis
    by (simp add: update_status_def assms now_def write_state_def lookup_dir_def d update_conv')
qed

lemma stop_compose_cases:
  assumes "\<forall>e. docker_down h (''labforge-'' @ lab_id) volumes = Some e \<longrightarrow> (\<exists>m. e = DockerError m)"
  shows "\<exists>w'. stop_compose h lab_id volumes True w = (Inr (), w') \<and> data_dir w' = data_dir w"
proof (cases "docker_down h (''labforge-'' @ lab_id) volumes")
  case None
  then show ?thesis by (simp add: stop_compose_def)
next
  case (Some e)
  with assms obtain m where "e = DockerError m" by blast
  with Some show ?thesis by (simp add: stop_compose_def)
qed

lemma load_cong: "data_dir w = data_dir w' \<Longrightarrow> load lab_id w = load lab_id w'"
  by (simp add: load_def lookup_dir_def)

lemma destroy_forced:
  assumes r: "resolve_id partial_id w = Inr lab_id"
    and l: "load lab_id w = Inr (YDict state)"
    and s: "map_of state ''status'' = Some status"
    and d: "\<forall>e. docker_down h (''labforge-'' @ lab_id) volumes = Some e \<longrightarrow> (\<exists>m. e = DockerError m)"
  shows "\<exists>w'. destroy h partial_id volumes True w = (Inr (), w') \<and> lookup_dir lab_id w' = None \<and>
           LabDestroyed lab_id \<in> set (console w')"
proof -
  from stop_compose_cases[OF d, of "print (DestroyingLab lab_id) w"] obtain w1 where
    w1: "stop_compose h lab_id volumes True (print (DestroyingLab lab_id) w) = (Inr (), w1)"
    "data_dir w1 = data_dir w" by auto
  have "load lab_id w1 = Inr (YDict state)" using load_cong[OF w1(2)] l by simp
  from update_status_record[OF this, of h "''destroyed''"] obtain w2 es dir where
    w2: "update_status h lab_id ''destroyed'' w1 = (Inr (), w2)"
    "data_dir w2 = Some es" "map_of es lab_id = Some (Directory dir)" by blast
  have del: "delete lab_id w2 = (Inr (), w2\<lparr>data_dir := Some (AList.delete lab_id es)\<rparr>)"
    by (simp add: delete_def lookup_dir_def w2)
  have "destroy h partial_id volumes True w =
          (Inr (), print (LabDestroyed lab_id) (w2\<lparr>data_dir := Some (AList.delete lab_id es)\<rparr>))"
    by (simp add: destroy_def r l s w1 w2 del)
  moreover have "lookup_dir lab_id (print (LabDestroyed lab_id) (w2\<lparr>data_dir := Some (AList.delete lab_id es)\<rparr>)) = None"
    by (simp add: lookup_dir_def delete_conv')
  ultimately show ?thesis by simp
qed

text \<open>
  Claim C6, with what the code does for a lab that does not exist. When the partial id
  resolves to a lab whose record has the status \<^verbatim>\<open>destroyed\<close>: without \<^verbatim>\<open>force\<close>, \<open>destroy\<close>
  returns normally and only prints that the lab is already destroyed; with \<^verbatim>\<open>force\<close> (and
  \<^verbatim>\<open>docker compose down\<close> succeeding or failing with a \<^verbatim>\<open>DockerError\<close>) it returns normally,
  the lab directory is gone and the destruction is reported. When the id does not
  resolve, \<open>destroy\<close> raises the error of \<open>resolve_id\<close> and changes nothing, whatever
  \<^verbatim>\<open>force\<close> is: "No labs found" without a data directory, "No lab found matching" when no
  directory with a record matches.
\<close>

theorem destroy_already_destroyed_or_missing:
  "(resolve_id partial_id w = Inr lab_id \<and> load lab_id w = Inr (YDict state) \<and>
    map_of state ''status'' = Some (YStr ''destroyed'') \<longrightarrow>
      destroy h partial_id volumes False w = (Inr (), print (AlreadyDestroyed lab_id) w) \<and>
      ((\<forall>e. docker_down h (''labforge-'' @ lab_id) volumes = Some e \<longrightarrow> (\<exists>m. e = DockerError m)) \<longrightarrow>
         (\<exists>w'. destroy h partial_id volumes True w = (Inr (), w') \<and> lookup_dir lab_id w' = None \<and>
               LabDestroyed lab_id \<in> set (console w')))) \<and>
   (resolve_id partial_id w = Inl e \<longrightarrow> destroy h partial_id volumes force w = (Inl e, w)) \<and>
   (data_dir w = None \<longrightarrow>
      destroy h partial_id volumes force w = (Inl (StateError NoLabsFound), w)) \<and>
   (data_dir w = Some es \<and> filter (is_match partial_id) es = [] \<longrightarrow>
      destroy h partial_id volumes force w = (Inl (StateError (NoLabMatching partial_id)), w))"
proof -
  have 1: "destroy h partial_id volumes False w = (Inr (), print (AlreadyDestroyed lab_id) w)"
    if "resolve_id partial_id w = Inr lab_id" "load lab_id w = Inr (YDict state)"
      "map_of state ''status'' = Some (YStr ''destroyed'')"
    using that by (simp add: destroy_def)
  have 2: "\<exists>w'. destroy h partial_id volumes True w = (Inr (), w') \<and> lookup_dir lab_id w' = None \<and>
               LabDestroyed lab_id \<in> set (console w')"
    if "resolve_id partial_id w = Inr lab_id" "load lab_id w = Inr (YDict state)"
      "map_of state ''status'' = Some (YStr ''destroyed'')"
      "\<forall>e. docker_down h (''labforge-'' @ lab_id) volumes = Some e \<longrightarrow> (\<exists>m. e = DockerError m)"
    using that by (rule destroy_forced)
  have 3: "resolve_id partial_id w = Inl e \<longrightarrow> destroy h partial_id volumes force w = (Inl e, w)"
    by (simp add: destroy_def)
  have 4: "data_dir w = None \<longrightarrow>
      destroy h partial_id volumes force w = (Inl (StateError NoLabsFound), w)"
    by (simp add: destroy_def resolve_id_def)
  have 5: "data_dir w = Some es \<and> filter (is_match partial_id) es = [] \<longrightarrow>
      destroy h partial_id volumes force w = (Inl (StateError (NoLabMatching partial_id)), w)"
    by (simp add: destroy_def resolve_id_def)
  from 1 2 3 4 5 show ?thesis by blast
qed

theorem destroy_already_destroyed_or_missing_witness:
  "destroy demo_host ''abc'' False False destroyed_world =
     (Inr (), print (AlreadyDestroyed ''abc-111'') destroyed_world) \<and>
   fst (destroy demo_host ''abc'' False True destroyed_world) = Inr () \<and>
   lookup_dir ''abc-111'' (snd (destroy demo_host ''abc'' False True destroyed_world)) = None"
proof -
  let ?state = "[(''lab_id'', YStr ''abc-111''), (''status'', YStr ''destroyed''),
                 (''subnet'', YStr ''172.30.1.0/24'')]"
  have r: "resolve_id ''abc'' destroyed_world = Inr ''abc-111''"
    by (simp add: resolve_id_def destroyed_world_def demo_record_def)
  have l: "load ''abc-111'' destroyed_world = Inr (YDict ?state)"
    by (simp add: load_def lookup_dir_def destroyed_world_def demo_record_def)
  have s: "map_of ?state ''status'' = Some (YStr ''destroyed'')" by simp
  have d: "\<forall>e. docker_down demo_host (''labforge-'' @ ''abc-111'') False = Some e \<longrightarrow>
             (\<exists>m. e = DockerError m)"
    by (simp add: docker_down_def demo_host_def docker_ok_def)
  from destroy_already_destroyed_or_missing[of "''abc''" destroyed_world "''abc-111''" ?state
      demo_host False] r l s d
  have a: "destroy demo_host ''abc'' False False destroyed_world =
             (Inr (), print (AlreadyDestroyed ''abc-111'') destroyed_world)"
    and b: "\<exists>w'. destroy demo_host ''abc'' False True destroyed_world = (Inr (), w') \<and>
              lookup_dir ''abc-111'' w' = None"
    by blast+
  from b obtain w' where "destroy demo_host ''abc'' False True destroyed_world = (Inr (), w')"
    "lookup_dir ''abc-111'' w' = None" by blast
  with a show ?thesis by simp
qed

text \<open>
  On a lab that does not exist \<open>destroy\<close> is an error, not a no-op, with and without
  \<^verbatim>\<open>force\<close>; and a leftover directory without a record is not found either, so \<^verbatim>\<open>force\<close>
  does not remove it.
\<close>

theorem destroy_missing_lab_counterexample:
  "destroy demo_host ''abc'' False False empty_world =
     (Inl (StateError (NoLabMatching ''abc'')), empty_world) \<and>
   destroy demo_host ''abc'' False True empty_world =
     (Inl (StateError (NoLabMatching ''abc'')), empty_world) \<and>
   destroy demo_host ''abc'' False True
     \<lparr>data_dir = Some [(''abc-111'', Directory \<lparr>state_file = None, compose_file = None\<rparr>)],
      console = [], ticks = 0\<rparr> =
     (Inl (StateError (NoLabMatching ''abc'')),
      \<lparr>data_dir = Some [(''abc-111'', Directory \<lparr>state_file = None, compose_file = None\<rparr>)],
       console = [], ticks = 0\<rparr>)"
  by (simp add: destroy_def resolve_id_def empty_world_def)

section \<open>Properties of build\<close>

lemma keeps_refl: "keeps lab_id w w"
  by (simp add: keeps_def)

lemma keeps_trans: "keeps lab_id w w' \<Longrightarrow> keeps lab_id w' w'' \<Longrightarrow> keeps lab_id w w''"
  unfolding keeps_def by fastforce

lemma keeps_load: "load lab_id w' = load lab_id w \<Longrightarrow> keeps lab_id w w'"
  by (simp add: keeps_def)

lemma keeps_data_dir: "data_dir w' = data_dir w \<Longrightarrow> keeps lab_id w w'"
  by (rule keeps_load) (rule load_cong)

lemma wbnd_cases:
  assumes "wbnd m f = (r, w'')"
  obtains e where "m = (Inl e, w'')" "r = Inl e"
  | x w' where "m = (Inr x, w')" "f x w' = (r, w'')"
proof (cases m)
  case (Pair a w')
  with assms show ?thesis by (cases a) (auto intro: that)
qed

lemma console_print_data_dir:
  "console_print h m w = (r, w') \<Longrightarrow> data_dir w' = data_dir w"
  by (auto simp: console_print_def split: if_splits)

lemma console_print_keeps:
  "console_print h m w = (r, w') \<Longrightarrow> keeps lab_id w w'"
  by (rule keeps_data_dir) (rule console_print_data_dir)

lemma mkdir_Inr:
  assumes "mkdir lab_id w = Inr w1"
  shows "\<exists>es d. data_dir w1 = Some es \<and> map_of es lab_id = Some (Directory d)"
proof (cases "lookup_dir lab_id w")
  case None
  with assms show ?thesis by (auto simp: mkdir_def update_conv')
next
  case (Some e)
  with assms show ?thesis
    by (cases e) (auto simp: mkdir_def lookup_dir_def split: option.splits)
qed

lemma mkdir_load:
  assumes "mkdir lab_id w = Inr w1"
  shows "load lab_id w1 = load lab_id w"
proof (cases "lookup_dir lab_id w")
  case None
  with assms show ?thesis by (auto simp: mkdir_def load_def lookup_dir_def update_conv')
next
  case (Some e)
  with assms show ?thesis by (cases e) (auto simp: mkdir_def)
qed

lemma write_compose_load:
  assumes "write_compose compose lab_id w = (r, w')"
  shows "load lab_id w' = load lab_id w"
proof (cases "mkdir lab_id w")
  case (Inl e)
  with assms show ?thesis by (simp add: write_compose_def)
next
  case (Inr w1)
  from mkdir_Inr[OF Inr] obtain es d where
    d: "data_dir w1 = Some es" "map_of es lab_id = Some (Directory d)" by blast
  have "load lab_id w' = load lab_id w1"
    using assms Inr d by (auto simp: write_compose_def lookup_dir_def load_def update_conv')
  then show ?thesis using mkdir_load[OF Inr] by simp
qed

lemma update_status_keeps:
  assumes "update_status h lab_id status w = (r, w')"
  shows "keeps lab_id w w'"
proof (cases "load lab_id w")
  case (Inl e)
  with assms show ?thesis by (simp add: update_status_def keeps_refl)
next
  case (Inr v)
  show ?thesis
  proof (cases "\<exists>st. v = YDict st")
    case True
    then obtain st where v: "v = YDict st" by blast
    from update_status_record[of lab_id w st h status] Inr v assms
    obtain es d where "data_dir w' = Some es" "map_of es lab_id = Some (Directory d)"
      "state_file d = Some (Document (YDict
             (AList.update ''updated_at'' (YStr (clock h (ticks w)))
               (AList.update ''status'' (YStr status) st))))"
      by auto
    then have "load lab_id w' = Inr (YDict (AList.update ''updated_at'' (YStr (clock h (ticks w)))
               (AList.update ''status'' (YStr status) st)))"
      by (simp add: load_def lookup_dir_def)
    then show ?thesis using Inr v by (simp add: keeps_def update_conv')
  next
    case False
    with Inr assms have "w' = w" by (cases v) (auto simp: update_status_def)
    then show ?thesis by (simp add: keeps_refl)
  qed
qed

lemma print_access_info_data_dir:
  "print_access_info h lab_id w = (r, w') \<Longrightarrow> data_dir w' = data_dir w"
  by (auto simp: print_access_info_def split: sum.splits dest: console_print_data_dir)

lemma run_commands_data_dir:
  "run_commands h project svc cmds w = (r, w') \<Longrightarrow> data_dir w' = data_dir w"
proof (induction cmds arbitrary: w)
  case Nil
  then show ?case by simp
next
  case (Cons cmd rest)
  show ?case
  proof (cases "py_getitem svc ''name''")
    case (Inl e)
    with Cons.prems show ?thesis by simp
  next
    case (Inr name)
    with Cons.prems have
      "wbnd (console_print h (RunningPostStart name cmd) w) (\<lambda>_ w1.
            case docker_exec h project name [YStr ''sh'', YStr ''-c'', cmd] of
              None \<Rightarrow> run_commands h project svc rest w1
            | Some (DockerError m) \<Rightarrow>
                wbnd (console_print h (PostStartFailed name (DockerError m)) w1)
                  (\<lambda>_. run_commands h project svc rest)
            | Some e \<Rightarrow> (Inl e, w1)) = (r, w')"
      by simp
    then show ?thesis
    proof (cases rule: wbnd_cases)
      case (1 e)
      from 1(1) show ?thesis by (rule console_print_data_dir)
    next
      case (2 u w1)
      from 2(1) have d1: "data_dir w1 = data_dir w" by (rule console_print_data_dir)
      note body = 2(2)
      show ?thesis
      proof (cases "docker_exec h project name [YStr ''sh'', YStr ''-c'', cmd]")
        case None
        with body have "run_commands h project svc rest w1 = (r, w')" by simp
        from Cons.IH[OF this] d1 show ?thesis by simp
      next
        case (Some e)
        show ?thesis
        proof (cases "\<exists>m. e = DockerError m")
          case True
          then obtain m where "e = DockerError m" by blast
          with body Some
          have "wbnd (console_print h (PostStartFailed name (DockerError m)) w1)
                  (\<lambda>_. run_commands h project svc rest) = (r, w')"
            by simp
          then show ?thesis
          proof (cases rule: wbnd_cases)
            case (1 e')
            from console_print_data_dir[OF 1(1)] d1 show ?thesis by simp
          next
            case (2 u' w2)
            from console_print_data_dir[OF 2(1)] Cons.IH[OF 2(2)] d1 show ?thesis by simp
          qed
        next
          case False
          with body Some have "w' = w1" by (cases e) auto
          with d1 show ?thesis by simp
        qed
      qed
    qed
  qed
qed

lemma run_services_data_dir:
  "run_services h project svcs w = (r, w') \<Longrightarrow> data_dir w' = data_dir w"
proof (induction svcs arbitrary: w)
  case Nil
  then show ?case by simp
next
  case (Cons svc rest)
  show ?case
  proof (cases "bnd (py_get svc ''post_start'' (YList [])) py_iter")
    case (Inl e)
    with Cons.prems show ?thesis by simp
  next
    case (Inr cmds)
    with Cons.prems have
      "wbnd (run_commands h project svc cmds w) (\<lambda>_. run_services h project rest) = (r, w')"
      by simp
    then show ?thesis
    proof (cases rule: wbnd_cases)
      case (1 e)
      then show ?thesis using run_commands_data_dir by blast
    next
      case (2 x w1)
      from run_commands_data_dir[OF 2(1)] Cons.IH[OF 2(2)] show ?thesis by simp
    qed
  qed
qed

lemma run_post_start_data_dir:
  "run_post_start h config project w = (r, w') \<Longrightarrow> data_dir w' = data_dir w"
  by (auto simp: run_post_start_def split: sum.splits dest: run_services_data_dir)

lemma build_running_data_dir:
  assumes "wbnd (console_print h LabIsRunning w) (\<lambda>_ w.
           wbnd (print_access_info h lab_id w) (\<lambda>_ w.
           wbnd (run_post_start h config project w) (\<lambda>_ w. (Inr lab_id, w)))) = (r, w')"
  shows "data_dir w' = data_dir w"
  using assms
proof (cases rule: wbnd_cases)
  case (1 e)
  from 1(1) show ?thesis by (rule console_print_data_dir)
next
  case (2 u w1)
  from 2(1) have d1: "data_dir w1 = data_dir w" by (rule console_print_data_dir)
  from 2(2) show ?thesis
  proof (cases rule: wbnd_cases)
    case (1 e)
    from print_access_info_data_dir[OF 1(1)] d1 show ?thesis by simp
  next
    case (2 u' w2)
    from print_access_info_data_dir[OF 2(1)] d1 have d2: "data_dir w2 = data_dir w" by simp
    from 2(2) show ?thesis
    proof (cases rule: wbnd_cases)
      case (1 e)
      from run_post_start_data_dir[OF 1(1)] d2 show ?thesis by simp
    next
      case (2 u'' w3)
      from run_post_start_data_dir[OF 2(1)] d2 2(2) show ?thesis by simp
    qed
  qed
qed

lemma build_up_keeps:
  assumes "(case docker_up h project of
              Some e \<Rightarrow> (Inl e, w)
            | None \<Rightarrow>
                wbnd (update_status h lab_id ''running'' w) (\<lambda>_ w.
                wbnd (console_print h LabIsRunning w) (\<lambda>_ w.
                wbnd (print_access_info h lab_id w) (\<lambda>_ w.
                wbnd (run_post_start h config project w) (\<lambda>_ w.
                  (Inr lab_id, w)))))) = (r, w')"
  shows "keeps lab_id w w'"
proof (cases "docker_up h project")
  case (Some e)
  with assms show ?thesis by (simp add: keeps_refl)
next
  case None
  with assms have "wbnd (update_status h lab_id ''running'' w) (\<lambda>_ w.
                wbnd (console_print h LabIsRunning w) (\<lambda>_ w.
                wbnd (print_access_info h lab_id w) (\<lambda>_ w.
                wbnd (run_post_start h config project w) (\<lambda>_ w.
                  (Inr lab_id, w))))) = (r, w')"
    by simp
  then show ?thesis
  proof (cases rule: wbnd_cases)
    case (1 e)
    from 1(1) show ?thesis by (rule update_status_keeps)
  next
    case (2 u w1)
    from 2(1) have "keeps lab_id w w1" by (rule update_status_keeps)
    moreover from 2(2) have "keeps lab_id w1 w'"
      by (intro keeps_data_dir build_running_data_dir)
    ultimately show ?thesis by (rule keeps_trans)
  qed
qed

lemma build_try_keeps:
  assumes "build_try h config lab_id subnet w = (r, w')"
  shows "keeps lab_id w w'"
proof (cases "generate (IPv4Network h) (py_repr h) config (YStr subnet) lab_id")
  case (Inl e)
  with assms show ?thesis by (simp add: build_try_def keeps_refl)
next
  case (Inr compose)
  with assms have "wbnd (write_compose compose lab_id w) (\<lambda>compose_path w.
          wbnd (console_print h (PrintComposeFile compose_path) w) (\<lambda>_ w.
          wbnd (console_print h StartingLab w) (\<lambda>_ w.
            case docker_up h (''labforge-'' @ lab_id) of
              Some e \<Rightarrow> (Inl e, w)
            | None \<Rightarrow>
                wbnd (update_status h lab_id ''running'' w) (\<lambda>_ w.
                wbnd (console_print h LabIsRunning w) (\<lambda>_ w.
                wbnd (print_access_info h lab_id w) (\<lambda>_ w.
                wbnd (run_post_start h config (''labforge-'' @ lab_id) w) (\<lambda>_ w.
                  (Inr lab_id, w)))))))) = (r, w')"
    by (simp add: build_try_def)
  then show ?thesis
  proof (cases rule: wbnd_cases)
    case (1 e)
    from write_compose_load[OF 1(1)] show ?thesis by (rule keeps_load)
  next
    case (2 path w1)
    have k1: "keeps lab_id w w1" using write_compose_load[OF 2(1)] by (rule keeps_load)
    from 2(2) have "keeps lab_id w1 w'"
    proof (cases rule: wbnd_cases)
      case (1 e)
      from 1(1) show ?thesis by (rule console_print_keeps)
    next
      case (2 u w2)
      from 2(1) have k2: "keeps lab_id w1 w2" by (rule console_print_keeps)
      from 2(2) have "keeps lab_id w2 w'"
      proof (cases rule: wbnd_cases)
        case (1 e)
        from 1(1) show ?thesis by (rule console_print_keeps)
      next
        case (2 u' w3)
        from 2(1) have "keeps lab_id w2 w3" by (rule console_print_keeps)
        moreover from 2(2) have "keeps lab_id w3 w'" by (rule build_up_keeps)
        ultimately show ?thesis by (rule keeps_trans)
      qed
      with k2 show ?thesis by (rule keeps_trans)
    qed
    with k1 show ?thesis by (rule keeps_trans)
  qed
qed

lemma create_record:
  assumes "create h lab_id template config subnet w = (Inr state, w')"
  shows "load lab_id w' = Inr (YDict state) \<and> map_of state ''lab_id'' = Some (YStr lab_id) \<and>
         map_of state ''subnet'' = Some subnet \<and> map_of state ''template'' = Some (YStr template)"
proof (cases "mkdir lab_id w")
  case (Inl e)
  with assms show ?thesis by (simp add: create_def)
next
  case (Inr w1)
  from mkdir_Inr[OF Inr] obtain es d where
    d: "data_dir w1 = Some es" "map_of es lab_id = Some (Directory d)" by blast
  let ?w3 = "snd (now h (snd (now h w1)))"
  have dd: "data_dir ?w3 = Some es" by (simp add: data_dir_now d(1))
  from assms Inr obtain services where
    s: "state = [(''lab_id'', YStr lab_id), (''template'', YStr template),
                 (''name'', dict_get config ''name'' (YStr template)),
                 (''description'', dict_get config ''description'' (YStr [])),
                 (''status'', YStr ''building''), (''subnet'', subnet), (''services'', YList services),
                 (''created_at'', YStr (fst (now h w1))),
                 (''updated_at'', YStr (fst (now h (snd (now h w1)))))]"
    and w: "w' = write_state lab_id state ?w3"
    by (auto simp: create_def Let_def case_prod_beta split: sum.splits)
  have "load lab_id w' = Inr (YDict state)" unfolding w using dd d(2) by (rule load_write_state)
  then show ?thesis by (simp add: s)
qed

lemma build_start_record:
  assumes "build_start h template name overrides w = (Inr (config, lab_id, subnet), w1)"
  shows "\<exists>state. load lab_id w1 = Inr (YDict state) \<and> map_of state ''lab_id'' = Some (YStr lab_id) \<and>
           map_of state ''subnet'' = Some (YStr subnet) \<and>
           map_of state ''template'' = Some (YStr template)"
proof -
  from assms obtain w0 state where "create h lab_id template config (YStr subnet) w0 = (Inr state, w1)"
    by (auto simp: build_start_def Let_def wbnd_def console_print_def split: sum.splits prod.splits if_splits)
  from create_record[OF this] show ?thesis by blast
qed


text \<open>
  Claim C7. Let \<open>build\<close> have created the record (\<open>build_start\<close> returns) and let the body of
  its \<^verbatim>\<open>try\<close> then raise an exception \<open>e\<close>, wherever in the body. If \<open>e\<close> is a \<^verbatim>\<open>DockerError\<close>
  or a \<^verbatim>\<open>NetworkError\<close>, the two classes the \<^verbatim>\<open>except\<close> clause names, then in the world that
  \<open>build\<close> leaves the lab directory still exists and \<open>load\<close> returns the lab's record with
  the status \<^verbatim>\<open>error\<close> and the lab id, subnet and template it was created with; and \<open>build\<close>
  raises that same exception, after reporting it on the console, when the console renders
  the report, and the console's \<^verbatim>\<open>MarkupError\<close> otherwise. If \<open>e\<close> is of any other class,
  \<open>build\<close> raises it from the world the body left: nothing sets the status to \<^verbatim>\<open>error\<close>.
\<close>

theorem build_failure_keeps_record:
  assumes s: "build_start h template name overrides w = (Inr (config, lab_id, subnet), w1)"
    and t: "build_try h config lab_id subnet w1 = (Inl e, w2)"
  shows "((\<exists>m. e = DockerError m) \<or> (\<exists>n. e = NetworkError n) \<longrightarrow>
            (\<exists>w3 state.
               build h template name overrides w =
                 (Inl (if renders h (BuildFailed e) then e else MarkupError), w3) \<and>
               load lab_id w3 = Inr (YDict state) \<and>
               map_of state ''status'' = Some (YStr ''error'') \<and>
               map_of state ''lab_id'' = Some (YStr lab_id) \<and>
               map_of state ''subnet'' = Some (YStr subnet) \<and>
               map_of state ''template'' = Some (YStr template) \<and>
               lookup_dir lab_id w3 \<noteq> None \<and>
               (renders h (BuildFailed e) \<longrightarrow> BuildFailed e \<in> set (console w3)))) \<and>
         (\<not> ((\<exists>m. e = DockerError m) \<or> (\<exists>n. e = NetworkError n)) \<longrightarrow>
            build h template name overrides w = (Inl e, w2))"
proof (intro conjI impI)
  assume c: "(\<exists>m. e = DockerError m) \<or> (\<exists>n. e = NetworkError n)"
  from build_start_record[OF s] obtain st1 where
    1: "load lab_id w1 = Inr (YDict st1)" "map_of st1 ''lab_id'' = Some (YStr lab_id)"
       "map_of st1 ''subnet'' = Some (YStr subnet)" "map_of st1 ''template'' = Some (YStr template)"
    by blast
  from build_try_keeps[OF t] 1(1) obtain st2 where
    2: "load lab_id w2 = Inr (YDict st2)"
       "\<forall>k. k \<noteq> ''status'' \<and> k \<noteq> ''updated_at'' \<longrightarrow> map_of st2 k = map_of st1 k"
    unfolding keeps_def by blast
  from update_status_record[OF 2(1), of h "''error''"] obtain w' es d where
    3: "update_status h lab_id ''error'' w2 = (Inr (), w')"
       "data_dir w' = Some es" "map_of es lab_id = Some (Directory d)"
       "state_file d = Some (Document (YDict
             (AList.update ''updated_at'' (YStr (clock h (ticks w2)))
               (AList.update ''status'' (YStr ''error'') st2))))"
    by blast
  let ?st = "AList.update ''updated_at'' (YStr (clock h (ticks w2)))
               (AList.update ''status'' (YStr ''error'') st2)"
  let ?w3 = "if renders h (BuildFailed e) then print (BuildFailed e) w' else w'"
  from c have ce: "is_caught e" by auto
  have b: "build h template name overrides w =
             (Inl (if renders h (BuildFailed e) then e else MarkupError), ?w3)"
    by (simp add: build_def s t ce 3(1) console_print_def)
  have l: "load lab_id ?w3 = Inr (YDict ?st)"
    using 3(2,3,4) by (simp add: load_def lookup_dir_def)
  have f: "map_of ?st ''status'' = Some (YStr ''error'')"
    "map_of ?st ''lab_id'' = Some (YStr lab_id)"
    "map_of ?st ''subnet'' = Some (YStr subnet)"
    "map_of ?st ''template'' = Some (YStr template)"
    using 1(2,3,4) 2(2) by (simp_all add: update_conv')
  have d: "lookup_dir lab_id ?w3 \<noteq> None"
    using 3(2,3) by (simp add: lookup_dir_def)
  have p: "renders h (BuildFailed e) \<longrightarrow> BuildFailed e \<in> set (console ?w3)"
    by simp
  from b l f d p show "\<exists>w3 state.
               build h template name overrides w =
                 (Inl (if renders h (BuildFailed e) then e else MarkupError), w3) \<and>
               load lab_id w3 = Inr (YDict state) \<and>
               map_of state ''status'' = Some (YStr ''error'') \<and>
               map_of state ''lab_id'' = Some (YStr lab_id) \<and>
               map_of state ''subnet'' = Some (YStr subnet) \<and>
               map_of state ''template'' = Some (YStr template) \<and>
               lookup_dir lab_id w3 \<noteq> None \<and>
               (renders h (BuildFailed e) \<longrightarrow> BuildFailed e \<in> set (console w3))"
    by blast
next
  assume "\<not> ((\<exists>m. e = DockerError m) \<or> (\<exists>n. e = NetworkError n))"
  then have "\<not> is_caught e" by (cases e) auto
  then show "build h template name overrides w = (Inl e, w2)"
    by (simp add: build_def s t)
qed

theorem build_failure_keeps_record_witness:
  "fst (build failing_host ''malware-lab'' None None empty_world) =
     Inl (DockerError ''Command failed'') \<and>
   bnd (load ''mal-a1b2c3d4'' (snd (build failing_host ''malware-lab'' None None empty_world)))
     (\<lambda>record. py_getitem record ''status'') = Inr (YStr ''error'') \<and>
   fst (build demo_host ''bad-offset'' None None empty_world) =
     Inl (NetworkError (OffsetOutOfRange (YInt 300) (YStr ''172.30.1.0/24''))) \<and>
   bnd (load ''bad-a1b2c3d4'' (snd (build demo_host ''bad-offset'' None None empty_world)))
     (\<lambda>record. py_getitem record ''status'') = Inr (YStr ''error'')"
proof -
  let ?config = "[(''name'', YStr ''malware-lab''),
      (''settings'', YDict [(''password'', YStr ''x1'')]),
      (''services'', YList
         [YDict [(''name'', YStr ''victim''), (''image'', YStr ''ubuntu:22.04''),
                 (''ip_offset'', YInt 10), (''hostname'', YStr ''victim-x1'')]])]"
  let ?w1 = "snd (build_start failing_host ''malware-lab'' None None empty_world)"
  let ?w2 = "snd (build_try failing_host ?config ''mal-a1b2c3d4'' ''172.30.1.0/24'' ?w1)"
  have "fst (build_start failing_host ''malware-lab'' None None empty_world) =
          Inr (?config, ''mal-a1b2c3d4'', ''172.30.1.0/24'')"
    by code_simp
  then have s: "build_start failing_host ''malware-lab'' None None empty_world =
          (Inr (?config, ''mal-a1b2c3d4'', ''172.30.1.0/24''), ?w1)"
    by (simp add: prod_eq_iff)
  have "fst (build_try failing_host ?config ''mal-a1b2c3d4'' ''172.30.1.0/24'' ?w1) =
          Inl (DockerError ''Command failed'')"
    by code_simp
  then have t: "build_try failing_host ?config ''mal-a1b2c3d4'' ''172.30.1.0/24'' ?w1 =
          (Inl (DockerError ''Command failed''), ?w2)"
    by (simp add: prod_eq_iff)
  have r: "renders failing_host (BuildFailed (DockerError ''Command failed''))"
    by (simp add: failing_host_def demo_host_def demo_renders_def)
  from build_failure_keeps_record[OF s t, THEN conjunct1] r obtain w3 state where
    "build failing_host ''malware-lab'' None None empty_world = (Inl (DockerError ''Command failed''), w3)"
    "load ''mal-a1b2c3d4'' w3 = Inr (YDict state)" "map_of state ''status'' = Some (YStr ''error'')"
    by auto
  then have docker: "fst (build failing_host ''malware-lab'' None None empty_world) =
     Inl (DockerError ''Command failed'') \<and>
   bnd (load ''mal-a1b2c3d4'' (snd (build failing_host ''malware-lab'' None None empty_world)))
     (\<lambda>record. py_getitem record ''status'') = Inr (YStr ''error'')"
    by simp
  let ?e = "NetworkError (OffsetOutOfRange (YInt 300) (YStr ''172.30.1.0/24''))"
  let ?v1 = "snd (build_start demo_host ''bad-offset'' None None empty_world)"
  let ?v2 = "snd (build_try demo_host bad_offset_config ''bad-a1b2c3d4'' ''172.30.1.0/24'' ?v1)"
  have "fst (build_start demo_host ''bad-offset'' None None empty_world) =
          Inr (bad_offset_config, ''bad-a1b2c3d4'', ''172.30.1.0/24'')"
    by code_simp
  then have s': "build_start demo_host ''bad-offset'' None None empty_world =
          (Inr (bad_offset_config, ''bad-a1b2c3d4'', ''172.30.1.0/24''), ?v1)"
    by (simp add: prod_eq_iff)
  have "fst (build_try demo_host bad_offset_config ''bad-a1b2c3d4'' ''172.30.1.0/24'' ?v1) = Inl ?e"
    by code_simp
  then have t': "build_try demo_host bad_offset_config ''bad-a1b2c3d4'' ''172.30.1.0/24'' ?v1 =
          (Inl ?e, ?v2)"
    by (simp add: prod_eq_iff)
  have r': "renders demo_host (BuildFailed ?e)"
    by (simp add: demo_host_def demo_renders_def)
  from build_failure_keeps_record[OF s' t', THEN conjunct1] r' obtain v3 state' where
    "build demo_host ''bad-offset'' None None empty_world = (Inl ?e, v3)"
    "load ''bad-a1b2c3d4'' v3 = Inr (YDict state')" "map_of state' ''status'' = Some (YStr ''error'')"
    by auto
  then have "fst (build demo_host ''bad-offset'' None None empty_world) = Inl ?e \<and>
   bnd (load ''bad-a1b2c3d4'' (snd (build demo_host ''bad-offset'' None None empty_world)))
     (\<lambda>record. py_getitem record ''status'') = Inr (YStr ''error'')"
    by simp
  with docker show ?thesis by simp
qed

text \<open>
  Claim C7, the failures it does not hold for. An \<^verbatim>\<open>ip_offset\<close> of 4294967296 makes the
  address arithmetic of \<open>compute_ip\<close> raise \<^verbatim>\<open>ValueError\<close> while the manifest is generated, and
  a \<^verbatim>\<open>docker\<close> that the system refuses to start makes \<^verbatim>\<open>docker.up\<close> raise \<^verbatim>\<open>PermissionError\<close>:
  both reach the caller, and the record stays with the status \<^verbatim>\<open>building\<close>. And when the
  report of a \<^verbatim>\<open>DockerError\<close> does not render, the caller gets \<^verbatim>\<open>MarkupError\<close>, not the
  failure.
\<close>

theorem build_uncaught_failure_counterexample:
  "fst (build demo_host ''huge-offset'' None None empty_world) = Inl ValueError \<and>
   load ''hug-a1b2c3d4'' (snd (build demo_host ''huge-offset'' None None empty_world)) =
     Inr (YDict
       [(''lab_id'', YStr ''hug-a1b2c3d4''), (''template'', YStr ''huge-offset''),
        (''name'', YStr ''huge-offset''), (''description'', YStr []),
        (''status'', YStr ''building''), (''subnet'', YStr ''172.30.1.0/24''),
        (''services'', YList
          [YDict [(''name'', YStr ''victim''), (''image'', YStr ''ubuntu:22.04''),
                  (''ip_offset'', YInt 4294967296), (''platform'', YStr ''linux'')]]),
        (''created_at'', YStr ''2026-01-01T00:00:00''),
        (''updated_at'', YStr ''2026-01-01T00:00:01'')]) \<and>
   fst (build denied_host ''malware-lab'' None None empty_world) = Inl PermissionError \<and>
   load ''mal-a1b2c3d4'' (snd (build denied_host ''malware-lab'' None None empty_world)) =
     Inr (YDict
       [(''lab_id'', YStr ''mal-a1b2c3d4''), (''template'', YStr ''malware-lab''),
        (''name'', YStr ''malware-lab''), (''description'', YStr []),
        (''status'', YStr ''building''), (''subnet'', YStr ''172.30.1.0/24''),
        (''services'', YList
          [YDict [(''name'', YStr ''victim''), (''image'', YStr ''ubuntu:22.04''),
                  (''ip_offset'', YInt 10), (''platform'', YStr ''linux'')]]),
        (''created_at'', YStr ''2026-01-01T00:00:00''),
        (''updated_at'', YStr ''2026-01-01T00:00:01'')]) \<and>
   fst (build markup_host ''malware-lab'' None None empty_world) = Inl MarkupError"
proof -
  have 1: "fst (build demo_host ''huge-offset'' None None empty_world) = Inl ValueError"
    by code_simp
  have 2: "load ''hug-a1b2c3d4'' (snd (build demo_host ''huge-offset'' None None empty_world)) =
     Inr (YDict
       [(''lab_id'', YStr ''hug-a1b2c3d4''), (''template'', YStr ''huge-offset''),
        (''name'', YStr ''huge-offset''), (''description'', YStr []),
        (''status'', YStr ''building''), (''subnet'', YStr ''172.30.1.0/24''),
        (''services'', YList
          [YDict [(''name'', YStr ''victim''), (''image'', YStr ''ubuntu:22.04''),
                  (''ip_offset'', YInt 4294967296), (''platform'', YStr ''linux'')]]),
        (''created_at'', YStr ''2026-01-01T00:00:00''),
        (''updated_at'', YStr ''2026-01-01T00:00:01'')])"
    by code_simp
  have 3: "fst (build denied_host ''malware-lab'' None None empty_world) = Inl PermissionError"
    by code_simp
  have 4: "load ''mal-a1b2c3d4'' (snd (build denied_host ''malware-lab'' None None empty_world)) =
     Inr (YDict
       [(''lab_id'', YStr ''mal-a1b2c3d4''), (''template'', YStr ''malware-lab''),
        (''name'', YStr ''malware-lab''), (''description'', YStr []),
        (''status'', YStr ''building''), (''subnet'', YStr ''172.30.1.0/24''),
        (''services'', YList
          [YDict [(''name'', YStr ''victim''), (''image'', YStr ''ubuntu:22.04''),
                  (''ip_offset'', YInt 10), (''platform'', YStr ''linux'')]]),
        (''created_at'', YStr ''2026-01-01T00:00:00''),
        (''updated_at'', YStr ''2026-01-01T00:00:01'')])"
    by code_simp
  have 5: "fst (build markup_host ''malware-lab'' None None empty_world) = Inl MarkupError"
    by code_simp
  from 1 2 3 4 5 show ?thesis by (intro conjI)
qed

end
